theory Spec2Isabelle
  imports Main "HOL-Library.Char_ord" "HOL-Library.List_Lexorder"
    "HOL-Library.Product_Lexorder" "HOL-Library.Multiset" "HOL-Library.Sublist"
begin

section \<open>Reconciling a Mixxx library with Clementine's song table\<close>

text \<open>
  The development follows \<^verbatim>\<open>fix_with_clementine_db\<close>
  (\<^verbatim>\<open>python_tools/fix_track_paths_utils/clementine_custom_music_db.py\<close>) and
  \<^verbatim>\<open>confirm_config\<close> (\<^verbatim>\<open>python_tools/utils/misc.py\<close>).

  A pandas data frame is a list of rows in frame order; every row carries its index
  label. The frames come from SQL queries (a \<^verbatim>\<open>RangeIndex\<close>, possibly filtered
  afterwards), so index labels are integers and pairwise different inside one frame;
  theorems that depend on this say so in a hypothesis. A text cell is a
  \<^typ>\<open>string option\<close>, \<^term>\<open>None\<close> being SQL's NULL (pandas' None/NaN).
  Strings are byte lists; the order of \<^theory_text>\<open>Char_ord\<close> and
  \<^theory_text>\<open>List_Lexorder\<close> on UTF-8 bytes is Python's order on code points.

  Printing and reading are events of a trace; the operator's answers are the list of
  lines still to be read, and reading from the empty list is Python's
  \<^verbatim>\<open>EOFError\<close>.
\<close>

subsection \<open>Data\<close>

type_synonym cell = "string option"

text \<open>A row of the Mixxx library frame (\<^verbatim>\<open>df_mixxx\<close>).\<close>

record mixxx_row =
  m_index :: int
  m_id :: int
  m_location :: int
  m_cols :: "string \<Rightarrow> cell"

text \<open>A row of Clementine's \<^verbatim>\<open>songs\<close> table as \<^verbatim>\<open>open_table_as_df\<close> returns it.\<close>

record song_row =
  s_index :: int
  s_filename :: string
  s_cols :: "string \<Rightarrow> cell"

text \<open>A row of \<^verbatim>\<open>df_custom\<close> once the path column has been created.\<close>

record custom_row =
  c_index :: int
  c_path :: string
  c_cols :: "string \<Rightarrow> cell"

text \<open>
  What the module imports from files that are not part of the sources at hand
  (\<^verbatim>\<open>music_db_utils\<close>, \<^verbatim>\<open>track_utils\<close>, \<^verbatim>\<open>config\<close>), and the state of the
  file system, are parameters of the run. \<^verbatim>\<open>MERGE_COLS\<close> is a non-empty list of
  column names. The five column names \<^verbatim>\<open>CUSTOM_DB_*_COLUMN\<close> are pairwise
  different names that neither input table uses; they are the fields of
  \<open>final_row\<close> below.
\<close>

record 't config =
  MERGE_COLS :: "string list"
  THRESHOLD_NAME_SIMILARITY :: 't
  N_SIMILAR_TRACK_PROPOSAL :: nat
  file_url_to_path :: "string \<Rightarrow> string"
  path_exists :: "string \<Rightarrow> bool"
  remove_feat :: "cell \<Rightarrow> cell"
  get_closest_matches_indices ::
    "mixxx_row \<Rightarrow> custom_row list \<Rightarrow> string list \<Rightarrow> 't \<Rightarrow> nat \<Rightarrow> int list"

text \<open>A row of the table handed to \<^verbatim>\<open>write_df_to_table\<close>.\<close>

record final_row =
  library_idx :: int
  location_idx :: int
  path :: string
  filename :: string
  directory :: string

text \<open>
  The exceptions that end a run. \<^verbatim>\<open>exit()\<close> is \<^verbatim>\<open>SystemExit\<close> without a code
  (exit status 0), \<^verbatim>\<open>exit(1)\<close> the one with code 1.
\<close>

datatype error =
    SystemExit "int option"
  | EOFError
  | KeyError
  | ValueError
  | IndexError

text \<open>
  What a run prints and asks, in the order of the source: the message of line 28, the
  question of line 33, the message of line 35, the count of line 90, the line of
  lines 103 to 105 for a row (with the merge values it shows and, to tell the rows
  apart, the index label \<^verbatim>\<open>idx_mixxx\<close> of the iteration), the message of line 115,
  a candidate of line 123 with its position, the question of line 127 and the table
  of line 179.
\<close>

datatype event =
    Print_no_missing_tracks
  | Input_refreshed
  | Print_do_it
  | Print_not_found nat
  | Print_finding int "cell list"
  | Print_no_similar
  | Print_candidate nat "cell list"
  | Input_choose
  | Print_merge_table "final_row list"

subsection \<open>Python's \<^verbatim>\<open>str\<close> and \<^verbatim>\<open>int\<close> on list positions\<close>

definition digit_char :: "nat \<Rightarrow> char" where
  "digit_char d = char_of (48 + d)"

function str_nat :: "nat \<Rightarrow> string" where
  "str_nat n = (if n < 10 then [digit_char n] else str_nat (n div 10) @ [digit_char (n mod 10)])"
  by pat_completeness auto
termination
  by (relation "measure id") auto

definition is_digit :: "char \<Rightarrow> bool" where
  "is_digit c = (48 \<le> (of_char c :: nat) \<and> (of_char c :: nat) \<le> 57)"

definition digit_val :: "char \<Rightarrow> nat" where
  "digit_val c = of_char c - 48"

text \<open>
  \<^verbatim>\<open>int(ans)\<close> is only reached with a non-empty member of \<^verbatim>\<open>ans_check\<close>, a string
  of decimal digits. On such strings the model is Python's \<^verbatim>\<open>int\<close>; every other
  string is answered with \<^verbatim>\<open>ValueError\<close> (Python also reads signs, blanks and
  underscores, which never get here).
\<close>

definition int_str :: "string \<Rightarrow> error + nat" where
  "int_str s = (if s \<noteq> [] \<and> list_all is_digit s
                then Inr (foldl (\<lambda>acc c. 10 * acc + digit_val c) 0 s)
                else Inl ValueError)"

subsection \<open>\<^verbatim>\<open>pathlib\<close>: \<^verbatim>\<open>Path(x).name\<close> and \<^verbatim>\<open>Path(x).parent.as_posix()\<close>\<close>

text \<open>
  \<^verbatim>\<open>Path\<close> is \<^verbatim>\<open>PosixPath\<close>: the tools run on a POSIX system, where Clementine's
  file URLs become paths with slashes. Both attributes are computed from the text of
  the path alone.
\<close>

text \<open>\<^verbatim>\<open>str.split(sep)\<close> for a one-character separator.\<close>

fun split_sep :: "char \<Rightarrow> string \<Rightarrow> string list" where
  "split_sep sep [] = [[]]"
| "split_sep sep (c # cs) =
     (if c = sep then [] # split_sep sep cs
      else (case split_sep sep cs of
              [] \<Rightarrow> [[c]]
            | p # ps \<Rightarrow> (c # p) # ps))"

text \<open>
  \<^verbatim>\<open>posixpath.splitroot\<close> without the drive, which is always empty: the root and
  the rest. Exactly two leading slashes are a root of their own.
\<close>

definition splitroot :: "string \<Rightarrow> string \<times> string" where
  "splitroot p =
     (if take 1 p \<noteq> ''/'' then ([], p)
      else if take 1 (drop 1 p) \<noteq> ''/'' \<or> take 1 (drop 2 p) = ''/'' then (''/'', drop 1 p)
      else (take 2 p, drop 2 p))"

text \<open>The root and the tail of a pure POSIX path: empty parts and \<^verbatim>\<open>.\<close> are dropped.\<close>

definition parse_path :: "string \<Rightarrow> string \<times> string list" where
  "parse_path p =
     (case splitroot p of
        (root, rel) \<Rightarrow> (root, filter (\<lambda>x. x \<noteq> [] \<and> x \<noteq> ''.'') (split_sep CHR ''/'' rel)))"

fun join_sep :: "string list \<Rightarrow> string" where
  "join_sep [] = []"
| "join_sep [p] = p"
| "join_sep (p # q # ps) = p @ ''/'' @ join_sep (q # ps)"

definition path_str :: "string \<times> string list \<Rightarrow> string" where
  "path_str rt =
     (case rt of (root, tail) \<Rightarrow>
        (let s = root @ join_sep tail in if s = [] then ''.'' else s))"

definition path_name :: "string \<Rightarrow> string" where
  "path_name p = (case parse_path p of (root, tail) \<Rightarrow> (if tail = [] then [] else last tail))"

definition path_parent_as_posix :: "string \<Rightarrow> string" where
  "path_parent_as_posix p =
     (case parse_path p of
        (root, tail) \<Rightarrow> path_str (root, if tail = [] then tail else butlast tail))"

subsection \<open>Preparing the two frames\<close>

text \<open>Lines 55 to 57: \<^verbatim>\<open>remove_feat\<close> is applied to the artist and title columns.\<close>

definition apply_remove_feat :: "(cell \<Rightarrow> cell) \<Rightarrow> (string \<Rightarrow> cell) \<Rightarrow> string \<Rightarrow> cell" where
  "apply_remove_feat f cols =
     (\<lambda>k. if k = ''artist'' \<or> k = ''title'' then f (cols k) else cols k)"

text \<open>Lines 43 to 50 and 57: the path column, the rows whose file exists, the clean-up.\<close>

definition prepare_custom :: "'t config \<Rightarrow> song_row list \<Rightarrow> custom_row list" where
  "prepare_custom env songs =
     map (\<lambda>s. \<lparr>c_index = s_index s,
              c_path = file_url_to_path env (s_filename s),
              c_cols = apply_remove_feat (remove_feat env) (s_cols s)\<rparr>)
         (filter (\<lambda>s. path_exists env (file_url_to_path env (s_filename s))) songs)"

definition prepare_mixxx :: "'t config \<Rightarrow> mixxx_row list \<Rightarrow> mixxx_row list" where
  "prepare_mixxx env df =
     map (\<lambda>m. m\<lparr>m_cols := apply_remove_feat (remove_feat env) (m_cols m)\<rparr>) df"

subsection \<open>Perfect match\<close>

definition merge_key :: "string list \<Rightarrow> (string \<Rightarrow> cell) \<Rightarrow> cell list" where
  "merge_key cols f = map f cols"

text \<open>
  Lines 71 to 78: the inner join of \<^verbatim>\<open>df_custom\<close> (left) and \<^verbatim>\<open>df_mixxx\<close> (right)
  on the merge columns, in the order of the left rows. A joined row is kept as the
  pair of the rows it comes from; pandas joins NULL keys with NULL keys.
\<close>

definition perfect_match ::
  "string list \<Rightarrow> custom_row list \<Rightarrow> mixxx_row list \<Rightarrow> (custom_row \<times> mixxx_row) list" where
  "perfect_match cols df_custom df_mixxx =
     concat (map (\<lambda>c. map (Pair c)
                   (filter (\<lambda>m. merge_key cols (m_cols m) = merge_key cols (c_cols c)) df_mixxx))
                 df_custom)"

text \<open>The three columns of a joined row that the final table keeps.\<close>

definition pm_row :: "custom_row \<times> mixxx_row \<Rightarrow> int \<times> int \<times> string" where
  "pm_row cm = (m_id (snd cm), m_location (snd cm), c_path (fst cm))"

text \<open>Lines 85 and 86: \<^verbatim>\<open>drop(index=...)\<close> removes every row whose label is listed.\<close>

definition mixxx_nm :: "mixxx_row list \<Rightarrow> (custom_row \<times> mixxx_row) list \<Rightarrow> mixxx_row list" where
  "mixxx_nm df_mixxx pm = filter (\<lambda>m. m_index m \<notin> set (map (m_index \<circ> snd) pm)) df_mixxx"

definition custom_nm :: "custom_row list \<Rightarrow> (custom_row \<times> mixxx_row) list \<Rightarrow> custom_row list" where
  "custom_nm df_custom pm = filter (\<lambda>c. c_index c \<notin> set (map (c_index \<circ> fst) pm)) df_custom"

subsection \<open>Close match\<close>

text \<open>Lines 96 and 97: \<^verbatim>\<open>fillna("")\<close> on the merge columns.\<close>

definition fillna :: "string list \<Rightarrow> (string \<Rightarrow> cell) \<Rightarrow> string \<Rightarrow> cell" where
  "fillna cols f = (\<lambda>k. if k \<in> set cols \<and> f k = None then Some [] else f k)"

definition fillna_mixxx :: "string list \<Rightarrow> mixxx_row list \<Rightarrow> mixxx_row list" where
  "fillna_mixxx cols df = map (\<lambda>m. m\<lparr>m_cols := fillna cols (m_cols m)\<rparr>) df"

definition fillna_custom :: "string list \<Rightarrow> custom_row list \<Rightarrow> custom_row list" where
  "fillna_custom cols df = map (\<lambda>c. c\<lparr>c_cols := fillna cols (c_cols c)\<rparr>) df"

text \<open>
  Lines 100 to 102: \<^verbatim>\<open>sort_values(by=["artist", "title"])\<close>, ascending, NULLs last
  in each column, rows with equal keys in frame order.
\<close>

definition cell_key :: "cell \<Rightarrow> bool \<times> string" where
  "cell_key c = (case c of None \<Rightarrow> (True, []) | Some s \<Rightarrow> (False, s))"

definition artist_title :: "mixxx_row \<Rightarrow> (bool \<times> string) \<times> (bool \<times> string)" where
  "artist_title m = (cell_key (m_cols m ''artist''), cell_key (m_cols m ''title''))"

definition sort_values :: "mixxx_row list \<Rightarrow> mixxx_row list" where
  "sort_values df = sort_key artist_title df"

text \<open>\<^verbatim>\<open>df.loc[idx, ...]\<close>: the row with that label, \<^verbatim>\<open>KeyError\<close> without one.\<close>

definition loc_mixxx :: "mixxx_row list \<Rightarrow> int \<Rightarrow> mixxx_row option" where
  "loc_mixxx df idx = find (\<lambda>m. m_index m = idx) df"

definition loc_custom :: "custom_row list \<Rightarrow> int \<Rightarrow> custom_row option" where
  "loc_custom df idx = find (\<lambda>c. c_index c = idx) df"

text \<open>
  Lines 120 to 124: the candidates are printed with their position, read from
  \<^verbatim>\<open>df_custom\<close>; the accepted answers are the empty string and the positions.
\<close>

fun print_candidates ::
  "string list \<Rightarrow> custom_row list \<Rightarrow> nat \<Rightarrow> int list \<Rightarrow> event list \<times> (error + unit)" where
  "print_candidates cols df_custom i [] = ([], Inr ())"
| "print_candidates cols df_custom i (idx # idxs) =
     (case loc_custom df_custom idx of
        None \<Rightarrow> ([], Inl KeyError)
      | Some c \<Rightarrow>
          (case print_candidates cols df_custom (Suc i) idxs of
             (evs, r) \<Rightarrow> (Print_candidate i (merge_key cols (c_cols c)) # evs, r)))"

definition ans_check :: "int list \<Rightarrow> string list" where
  "ans_check close_indices = [] # map str_nat [0..<length close_indices]"

text \<open>Lines 126 to 131: ask until the answer is one of the accepted ones.\<close>

fun ask_choice :: "string list \<Rightarrow> string list \<Rightarrow> event list \<times> (error + string \<times> string list)" where
  "ask_choice chk [] = ([Input_choose], Inl EOFError)"
| "ask_choice chk (ans # rest) =
     (if ans \<in> set chk then ([Input_choose], Inr (ans, rest))
      else (case ask_choice chk rest of (evs, r) \<Rightarrow> (Input_choose # evs, r)))"

text \<open>Lines 133 to 141: what an accepted answer appends to \<^verbatim>\<open>list_idx_cm\<close>.\<close>

definition chosen_match ::
  "custom_row list \<Rightarrow> mixxx_row list \<Rightarrow> int \<Rightarrow> int list \<Rightarrow> string
     \<Rightarrow> error + (int \<times> int \<times> string) option" where
  "chosen_match df_custom_nm df_mixxx_nm idx_mixxx close_indices ans =
     (if ans = [] then Inr None
      else (case int_str ans of
              Inl e \<Rightarrow> Inl e
            | Inr k \<Rightarrow>
                (if k < length close_indices then
                   (case loc_mixxx df_mixxx_nm idx_mixxx of
                      None \<Rightarrow> Inl KeyError
                    | Some m \<Rightarrow>
                        (case loc_custom df_custom_nm (close_indices ! k) of
                           None \<Rightarrow> Inl KeyError
                         | Some c \<Rightarrow> Inr (Some (m_id m, m_location m, c_path c))))
                 else Inl IndexError)))"

text \<open>Lines 103 to 141: the body of the loop for one row of the sorted residual.\<close>

definition close_match_row ::
  "'t config \<Rightarrow> custom_row list \<Rightarrow> custom_row list \<Rightarrow> mixxx_row list \<Rightarrow> mixxx_row
     \<Rightarrow> string list \<Rightarrow> event list \<times> (error + (int \<times> int \<times> string) option \<times> string list)" where
  "close_match_row env df_custom df_custom_nm df_mixxx_nm row inp =
     (let finding = Print_finding (m_index row) (merge_key (MERGE_COLS env) (m_cols row));
          close_indices = get_closest_matches_indices env row df_custom_nm (MERGE_COLS env)
                            (THRESHOLD_NAME_SIMILARITY env) (N_SIMILAR_TRACK_PROPOSAL env)
      in if length close_indices = 0 then ([finding, Print_no_similar], Inr (None, inp))
         else (case print_candidates (MERGE_COLS env) df_custom 0 close_indices of
                 (evs, Inl e) \<Rightarrow> (finding # evs, Inl e)
               | (evs, Inr u) \<Rightarrow>
                   (case ask_choice (ans_check close_indices) inp of
                      (evs', Inl e) \<Rightarrow> (finding # evs @ evs', Inl e)
                    | (evs', Inr (ans, rest)) \<Rightarrow>
                        (case chosen_match df_custom_nm df_mixxx_nm (m_index row)
                                close_indices ans of
                           Inl e \<Rightarrow> (finding # evs @ evs', Inl e)
                         | Inr found \<Rightarrow> (finding # evs @ evs', Inr (found, rest))))))"

text \<open>Lines 99 to 141: the loop, with \<^verbatim>\<open>list_idx_cm\<close> as accumulator.\<close>

fun close_match_loop ::
  "'t config \<Rightarrow> custom_row list \<Rightarrow> custom_row list \<Rightarrow> mixxx_row list \<Rightarrow> mixxx_row list
     \<Rightarrow> (int \<times> int \<times> string) list \<Rightarrow> string list
     \<Rightarrow> event list \<times> (error + (int \<times> int \<times> string) list \<times> string list)" where
  "close_match_loop env df_custom df_custom_nm df_mixxx_nm [] list_idx_cm inp =
     ([], Inr (list_idx_cm, inp))"
| "close_match_loop env df_custom df_custom_nm df_mixxx_nm (row # rows) list_idx_cm inp =
     (case close_match_row env df_custom df_custom_nm df_mixxx_nm row inp of
        (evs, Inl e) \<Rightarrow> (evs, Inl e)
      | (evs, Inr (found, rest)) \<Rightarrow>
          (case close_match_loop env df_custom df_custom_nm df_mixxx_nm rows
                  (list_idx_cm @ (case found of None \<Rightarrow> [] | Some r \<Rightarrow> [r])) rest of
             (evs', r) \<Rightarrow> (evs @ evs', r)))"

text \<open>Lines 89 to 151: the close-match stage on the two residuals.\<close>

definition close_match ::
  "'t config \<Rightarrow> custom_row list \<Rightarrow> custom_row list \<Rightarrow> mixxx_row list \<Rightarrow> string list
     \<Rightarrow> event list \<times> (error + (int \<times> int \<times> string) list \<times> string list)" where
  "close_match env df_custom df_custom_nm df_mixxx_nm inp =
     (if length df_mixxx_nm = 0 then ([], Inr ([], inp))
      else (let nm_m = fillna_mixxx (MERGE_COLS env) df_mixxx_nm;
                nm_c = fillna_custom (MERGE_COLS env) df_custom_nm
            in (case close_match_loop env df_custom nm_c nm_m (sort_values nm_m) [] inp of
                  (evs, r) \<Rightarrow> (Print_not_found (length df_mixxx_nm) # evs, r))))"

subsection \<open>The final table and the whole run\<close>

text \<open>Lines 154 to 166.\<close>

definition final_output :: "(int \<times> int \<times> string) list \<Rightarrow> final_row list" where
  "final_output rows =
     map (\<lambda>(lib, loc, p).
            \<lparr>library_idx = lib, location_idx = loc, path = p,
             filename = path_name p, directory = path_parent_as_posix p\<rparr>) rows"

text \<open>
  The run: the trace, and either the exception that ends it or the table written
  with \<^verbatim>\<open>write_df_to_table\<close> together with the input left unread.
\<close>

definition fix_with_clementine_db ::
  "'t config \<Rightarrow> mixxx_row list \<Rightarrow> song_row list \<Rightarrow> string list
     \<Rightarrow> event list \<times> (error + final_row list \<times> string list)" where
  "fix_with_clementine_db env df_mixxx0 songs inp =
     (if length df_mixxx0 = 0 then ([Print_no_missing_tracks], Inl (SystemExit None))
      else (case inp of
              [] \<Rightarrow> ([Input_refreshed], Inl EOFError)
            | answer # inp1 \<Rightarrow>
                (if answer \<noteq> ''y'' then ([Input_refreshed, Print_do_it], Inl (SystemExit None))
                 else (let df_custom = prepare_custom env songs;
                           df_mixxx = prepare_mixxx env df_mixxx0;
                           df_custom_pm = perfect_match (MERGE_COLS env) df_custom df_mixxx;
                           df_mixxx_nm = mixxx_nm df_mixxx df_custom_pm;
                           df_custom_nm = custom_nm df_custom df_custom_pm
                       in (case close_match env df_custom df_custom_nm df_mixxx_nm inp1 of
                             (evs, Inl e) \<Rightarrow> (Input_refreshed # evs, Inl e)
                           | (evs, Inr (df_custom_cm, rest)) \<Rightarrow>
                               (let df_custom_final =
                                      final_output (map pm_row df_custom_pm @ df_custom_cm)
                                in (Input_refreshed # evs @ [Print_merge_table df_custom_final],
                                    Inr (df_custom_final, rest))))))))"

text \<open>The values of \<^verbatim>\<open>df_custom_pm\<close> and \<^verbatim>\<open>df_mixxx_nm\<close> in a run.\<close>

definition df_custom_pm ::
  "'t config \<Rightarrow> mixxx_row list \<Rightarrow> song_row list \<Rightarrow> (custom_row \<times> mixxx_row) list" where
  "df_custom_pm env df_mixxx0 songs =
     perfect_match (MERGE_COLS env) (prepare_custom env songs) (prepare_mixxx env df_mixxx0)"

definition df_mixxx_nm :: "'t config \<Rightarrow> mixxx_row list \<Rightarrow> song_row list \<Rightarrow> mixxx_row list" where
  "df_mixxx_nm env df_mixxx0 songs =
     mixxx_nm (prepare_mixxx env df_mixxx0) (df_custom_pm env df_mixxx0 songs)"

subsection \<open>Proposing candidates\<close>

text \<open>
  Modelled from the spec: \<^verbatim>\<open>get_closest_matches_indices\<close> lives in
  \<^verbatim>\<open>python_tools/utils/track_utils.py\<close>, which is not among the sources at hand.
  The specification's contract \<^verbatim>\<open>propose_candidates\<close>: the distance of every pool
  record to the truth record is computed, the records strictly below the threshold
  are kept, ordered by ascending distance and, for equal distances, by ascending
  original pool index, and the first \<^verbatim>\<open>max_candidates\<close> of them are returned. The
  metric is the implementer's choice and a parameter here. A candidate is the pair of
  its distance and the pool record's index.
\<close>

definition propose_candidates ::
  "(string list \<Rightarrow> mixxx_row \<Rightarrow> custom_row \<Rightarrow> 'd::linorder) \<Rightarrow> mixxx_row \<Rightarrow> custom_row list
     \<Rightarrow> string list \<Rightarrow> 'd \<Rightarrow> nat \<Rightarrow> ('d \<times> int) list" where
  "propose_candidates dist record candidate_pool merge_fields threshold max_candidates =
     take max_candidates
       (sort_key (\<lambda>x. x)
          (filter (\<lambda>x. fst x < threshold)
             (map (\<lambda>c. (dist merge_fields record c, c_index c)) candidate_pool)))"

text \<open>
  Modelled from the spec: the indices of the proposed candidates, which is what the
  caller of \<^verbatim>\<open>get_closest_matches_indices\<close> receives.
\<close>

definition closest_matches_indices ::
  "(string list \<Rightarrow> mixxx_row \<Rightarrow> custom_row \<Rightarrow> 'd::linorder) \<Rightarrow> mixxx_row \<Rightarrow> custom_row list
     \<Rightarrow> string list \<Rightarrow> 'd \<Rightarrow> nat \<Rightarrow> int list" where
  "closest_matches_indices dist record candidate_pool merge_fields threshold max_candidates =
     map snd (propose_candidates dist record candidate_pool merge_fields threshold
                max_candidates)"

text \<open>
  Modelled from the spec: a standard edit distance, the least number of insertions,
  deletions and substitutions of one character that turn one string into the other.
\<close>

fun edit_distance :: "string \<Rightarrow> string \<Rightarrow> nat" where
  "edit_distance [] ys = length ys"
| "edit_distance (x # xs) [] = Suc (length xs)"
| "edit_distance (x # xs) (y # ys) =
     (if x = y then edit_distance xs ys
      else Suc (min (edit_distance xs ys)
                    (min (edit_distance xs (y # ys)) (edit_distance (x # xs) ys))))"

text \<open>Modelled from the spec: a merge field that is missing or null reads as the empty
  string.\<close>

definition cell_text :: "cell \<Rightarrow> string" where
  "cell_text c = (case c of None \<Rightarrow> [] | Some s \<Rightarrow> s)"

text \<open>Modelled from the spec: the distance of two records, each merge field
  contributing its edit distance, whatever the order of the fields.\<close>

definition fields_distance :: "string list \<Rightarrow> mixxx_row \<Rightarrow> custom_row \<Rightarrow> nat" where
  "fields_distance merge_fields record c =
     sum_list (map (\<lambda>k. edit_distance (cell_text (m_cols record k)) (cell_text (c_cols c k)))
                 merge_fields)"

subsection \<open>\<^verbatim>\<open>confirm_config\<close>\<close>

text \<open>
  A member of the configuration module, as \<^verbatim>\<open>inspect.getmembers\<close> lists it: its
  name, the type of its value and what \<^verbatim>\<open>str\<close> returns for the value. Member names
  are pairwise different, so that sorting the (name, value) pairs never compares two
  values.
\<close>

datatype py_type = Py_int | Py_float | Py_str | Py_bool | Py_module | Py_other

record member =
  mem_name :: string
  mem_type :: py_type
  mem_str :: string

datatype config_event =
    Print_defined string
  | Print_param string string
  | Input_ok

definition startswith :: "string \<Rightarrow> string \<Rightarrow> bool" where
  "startswith s pre = (take (length pre) s = pre)"

definition eligible :: "member \<Rightarrow> bool" where
  "eligible i = (\<not> startswith (mem_name i) ''__'' \<and> \<not> CHR ''.'' \<in> set (mem_str i))"

definition params_of :: "member list \<Rightarrow> member list" where
  "params_of members = sort_key mem_name (filter eligible members)"

text \<open>
  The run of \<^verbatim>\<open>confirm_config\<close>: the trace, and either the exception or the input
  left unread when it returns.
\<close>

definition confirm_config ::
  "string \<Rightarrow> member list \<Rightarrow> string list \<Rightarrow> config_event list \<times> (error + string list)" where
  "confirm_config module_name members inp =
     (let params = params_of members
      in if params \<noteq> [] then
           (let printed = Print_defined module_name
                            # map (\<lambda>param. Print_param (mem_name param) (mem_str param)) params
                            @ [Input_ok]
            in (case inp of
                  [] \<Rightarrow> (printed, Inl EOFError)
                | answer # rest \<Rightarrow>
                    (if answer \<noteq> ''y'' then (printed, Inl (SystemExit (Some 1)))
                     else (printed, Inr rest))))
         else ([], Inr inp))"

text \<open>
  The rows evaluated by the loop, read off the trace: the index labels of the
  \<^verbatim>\<open>Finding the closest match\<close> lines, in the order in which they were printed.
\<close>

fun finding_label :: "event \<Rightarrow> int option" where
  "finding_label (Print_finding idx vals) = Some idx"
| "finding_label ev = None"

definition evaluated :: "event list \<Rightarrow> int list" where
  "evaluated evs = List.map_filter finding_label evs"

subsection \<open>Sample data\<close>

definition text_cols :: "string \<Rightarrow> string \<Rightarrow> string \<Rightarrow> cell" where
  "text_cols artist title =
     (\<lambda>k. if k = ''artist'' then Some artist else if k = ''title'' then Some title else None)"

text \<open>
  A configuration with the merge columns artist and title, threshold 3 and at most 5
  proposals, in which every file exists, a file URL loses its scheme and
  \<^verbatim>\<open>remove_feat\<close> changes nothing; the proposer is left open.
\<close>

definition sample_env_with ::
  "(mixxx_row \<Rightarrow> custom_row list \<Rightarrow> string list \<Rightarrow> nat \<Rightarrow> nat \<Rightarrow> int list) \<Rightarrow> nat config" where
  "sample_env_with proposer =
     \<lparr>MERGE_COLS = [''artist'', ''title''],
      THRESHOLD_NAME_SIMILARITY = 3,
      N_SIMILAR_TRACK_PROPOSAL = 5,
      file_url_to_path = drop 7,
      path_exists = (\<lambda>p. True),
      remove_feat = (\<lambda>c. c),
      get_closest_matches_indices = proposer\<rparr>"

text \<open>The same with the proposer of the specification and the edit distance.\<close>

definition sample_env :: "nat config" where
  "sample_env = sample_env_with (closest_matches_indices fields_distance)"

definition mixxx_one :: mixxx_row where
  "mixxx_one = \<lparr>m_index = 0, m_id = 1, m_location = 11, m_cols = text_cols ''dp'' ''omt''\<rparr>"

definition mixxx_two :: mixxx_row where
  "mixxx_two = \<lparr>m_index = 1, m_id = 2, m_location = 12, m_cols = text_cols ''dp'' ''omx''\<rparr>"

definition mixxx_three :: mixxx_row where
  "mixxx_three = \<lparr>m_index = 2, m_id = 3, m_location = 13, m_cols = text_cols ''dp'' ''aero''\<rparr>"

definition song_a :: song_row where
  "song_a = \<lparr>s_index = 0, s_filename = ''file:///a.mp3'', s_cols = text_cols ''dp'' ''omt''\<rparr>"

definition song_b :: song_row where
  "song_b = \<lparr>s_index = 1, s_filename = ''file:///m/b.mp3'', s_cols = text_cols ''dp'' ''omt''\<rparr>"

definition song_c :: song_row where
  "song_c = \<lparr>s_index = 2, s_filename = ''file:///m/c.mp3'', s_cols = text_cols ''dp'' ''om''\<rparr>"

definition custom_a :: custom_row where
  "custom_a = \<lparr>c_index = 0, c_path = ''/a.mp3'', c_cols = text_cols ''dp'' ''omt''\<rparr>"

definition custom_b :: custom_row where
  "custom_b = \<lparr>c_index = 1, c_path = ''/m/b.mp3'', c_cols = text_cols ''dp'' ''omt''\<rparr>"

definition custom_c :: custom_row where
  "custom_c = \<lparr>c_index = 2, c_path = ''/m/c.mp3'', c_cols = text_cols ''dp'' ''om''\<rparr>"

text \<open>Rows of final tables.\<close>

definition final_a :: final_row where
  "final_a = \<lparr>library_idx = 1, location_idx = 11, path = ''/a.mp3'',
               filename = ''a.mp3'', directory = ''/''\<rparr>"

definition final_b :: final_row where
  "final_b = \<lparr>library_idx = 1, location_idx = 11, path = ''/m/b.mp3'',
               filename = ''b.mp3'', directory = ''/m''\<rparr>"

definition final_c1 :: final_row where
  "final_c1 = \<lparr>library_idx = 1, location_idx = 11, path = ''/m/c.mp3'',
                filename = ''c.mp3'', directory = ''/m''\<rparr>"

definition final_c2 :: final_row where
  "final_c2 = \<lparr>library_idx = 2, location_idx = 12, path = ''/m/c.mp3'',
                filename = ''c.mp3'', directory = ''/m''\<rparr>"

section \<open>Properties\<close>

declare str_nat.simps [simp del]

subsection \<open>Decimal strings of positions\<close>

lemma digit_char_props:
  assumes "d < 10"
  shows "is_digit (digit_char d)" and "digit_val (digit_char d) = d"
  using assms by (simp_all add: is_digit_def digit_val_def digit_char_def)

lemma str_nat_digits: "str_nat n \<noteq> [] \<and> list_all is_digit (str_nat n)"
proof (induction n rule: str_nat.induct)
  case (1 n)
  show ?case
  proof (cases "n < 10")
    case True
    then show ?thesis
      by (simp add: str_nat.simps [of n] digit_char_props)
  next
    case False
    then have "list_all is_digit (str_nat (n div 10))"
      using "1.IH" by simp
    moreover have "is_digit (digit_char (n mod 10))"
      by (simp add: digit_char_props)
    ultimately show ?thesis
      using False by (simp add: str_nat.simps [of n])
  qed
qed

lemma str_nat_value: "foldl (\<lambda>acc c. 10 * acc + digit_val c) 0 (str_nat n) = n"
proof (induction n rule: str_nat.induct)
  case (1 n)
  show ?case
  proof (cases "n < 10")
    case True
    then show ?thesis
      by (simp add: str_nat.simps [of n] digit_char_props)
  next
    case False
    then have "foldl (\<lambda>acc c. 10 * acc + digit_val c) 0 (str_nat (n div 10)) = n div 10"
      using "1.IH" by simp
    then show ?thesis
      using False by (simp add: str_nat.simps [of n] digit_char_props)
  qed
qed

text \<open>\<^verbatim>\<open>int(str(i))\<close> is \<open>i\<close>.\<close>

lemma int_str_str_nat: "int_str (str_nat n) = Inr n"
  using str_nat_digits [of n] by (simp add: int_str_def str_nat_value)

lemma str_nat_0: "str_nat 0 = ''0''"
  by code_simp

subsection \<open>The perfect match and the two residuals\<close>

lemma set_perfect_match:
  "set (perfect_match cols dc dm) =
     {(c, m). c \<in> set dc \<and> m \<in> set dm \<and> merge_key cols (m_cols m) = merge_key cols (c_cols c)}"
  by (auto simp: perfect_match_def)

lemma perfect_match_Cons:
  "perfect_match cols (c # dc) dm =
     map (Pair c) (filter (\<lambda>m. merge_key cols (m_cols m) = merge_key cols (c_cols c)) dm)
     @ perfect_match cols dc dm"
  by (simp add: perfect_match_def)

lemma merge_key_eq_iff:
  "merge_key cols f = merge_key cols g \<longleftrightarrow> (\<forall>k \<in> set cols. f k = g k)"
  by (simp add: merge_key_def)

lemma partition_mset:
  assumes "distinct zs" "distinct xs" "set xs \<union> set ys = set zs" "set xs \<inter> set ys = {}"
  shows "mset xs + mset (remdups ys) = mset zs"
proof -
  have "mset (remdups ys) = mset_set (set ys)"
    using mset_set_set [of "remdups ys"] by simp
  then have "mset xs + mset (remdups ys) = mset_set (set xs) + mset_set (set ys)"
    using assms(2) by (simp add: mset_set_set)
  also have "\<dots> = mset_set (set xs \<union> set ys)"
    using assms(4) by (simp add: mset_set_Union)
  also have "\<dots> = mset zs"
    using assms(1,3) by (simp add: mset_set_set)
  finally show ?thesis .
qed

lemma mixxx_nm_indices:
  "set (map m_index (mixxx_nm dm (perfect_match cols dc dm)))
     \<union> set (map (m_index \<circ> snd) (perfect_match cols dc dm)) = set (map m_index dm)"
  by (auto simp: mixxx_nm_def set_perfect_match)

lemma custom_nm_indices:
  "set (map c_index (custom_nm dc (perfect_match cols dc dm)))
     \<union> set (map (c_index \<circ> fst) (perfect_match cols dc dm)) = set (map c_index dc)"
  by (auto simp: custom_nm_def set_perfect_match)

lemma mixxx_nm_disjoint:
  "set (map m_index (mixxx_nm dm pm)) \<inter> set (map (m_index \<circ> snd) pm) = {}"
  by (auto simp: mixxx_nm_def)

lemma custom_nm_disjoint:
  "set (map c_index (custom_nm dc pm)) \<inter> set (map (c_index \<circ> fst) pm) = {}"
  by (auto simp: custom_nm_def)

lemma distinct_mixxx_nm:
  "distinct (map m_index dm) \<Longrightarrow> distinct (map m_index (mixxx_nm dm pm))"
  by (simp add: mixxx_nm_def distinct_map_filter)

lemma distinct_custom_nm:
  "distinct (map c_index dc) \<Longrightarrow> distinct (map c_index (custom_nm dc pm))"
  by (simp add: custom_nm_def distinct_map_filter)

lemma mixxx_nm_subset: "set (mixxx_nm dm pm) \<subseteq> set dm"
  by (auto simp: mixxx_nm_def)

lemma custom_nm_subset: "set (custom_nm dc pm) \<subseteq> set dc"
  by (auto simp: custom_nm_def)

subsection \<open>The body of the close-match loop\<close>

lemma loc_mixxx_mem: "loc_mixxx df idx = Some m \<Longrightarrow> m \<in> set df \<and> m_index m = idx"
  by (auto simp: loc_mixxx_def find_Some_iff)

lemma loc_custom_mem: "loc_custom df idx = Some c \<Longrightarrow> c \<in> set df \<and> c_index c = idx"
  by (auto simp: loc_custom_def find_Some_iff)

lemma loc_mixxx_self:
  assumes "distinct (map m_index df)" and "m \<in> set df"
  shows "loc_mixxx df (m_index m) = Some m"
  using assms
proof (induction df)
  case Nil
  then show ?case by simp
next
  case (Cons a df)
  then show ?case
    by (auto simp: loc_mixxx_def)
qed


lemma ask_choice_accept:
  "ans \<in> set chk \<Longrightarrow> ask_choice chk (ans # rest) = ([Input_choose], Inr (ans, rest))"
  by simp



lemma chosen_match_index:
  assumes "i < length close" "loc_mixxx dmn idx = Some m" "loc_custom dcn (close ! i) = Some c"
  shows "chosen_match dcn dmn idx close (str_nat i) = Inr (Some (m_id m, m_location m, c_path c))"
  using assms str_nat_digits [of i] by (simp add: chosen_match_def int_str_str_nat)

lemma chosen_match_Some:
  assumes "chosen_match dcn dmn idx close ans = Inr (Some x)"
  shows "\<exists>m c. loc_mixxx dmn idx = Some m \<and> c \<in> set dcn
           \<and> x = (m_id m, m_location m, c_path c)"
  using assms
  by (auto simp: chosen_match_def split: if_splits sum.splits option.splits
      dest: loc_custom_mem)

text \<open>The body once the candidates are on the screen.\<close>

lemma close_match_row_asked:
  assumes "get_closest_matches_indices env row dcn (MERGE_COLS env)
             (THRESHOLD_NAME_SIMILARITY env) (N_SIMILAR_TRACK_PROPOSAL env) = close"
    and "close \<noteq> []"
    and "print_candidates (MERGE_COLS env) dc 0 close = (evs, Inr ())"
  shows "close_match_row env dc dcn dmn row inp =
     (case ask_choice (ans_check close) inp of
        (evs', Inl e) \<Rightarrow>
          (Print_finding (m_index row) (merge_key (MERGE_COLS env) (m_cols row)) # evs @ evs', Inl e)
      | (evs', Inr (ans, rest)) \<Rightarrow>
          (case chosen_match dcn dmn (m_index row) close ans of
             Inl e \<Rightarrow>
               (Print_finding (m_index row) (merge_key (MERGE_COLS env) (m_cols row)) # evs @ evs',
                Inl e)
           | Inr found \<Rightarrow>
               (Print_finding (m_index row) (merge_key (MERGE_COLS env) (m_cols row)) # evs @ evs',
                Inr (found, rest))))"
  using assms by (simp add: close_match_row_def Let_def)

text \<open>No candidate: the row is passed over and nothing is read.\<close>

lemma close_match_row_none:
  assumes "get_closest_matches_indices env row dcn (MERGE_COLS env)
             (THRESHOLD_NAME_SIMILARITY env) (N_SIMILAR_TRACK_PROPOSAL env) = []"
  shows "close_match_row env dc dcn dmn row inp =
     ([Print_finding (m_index row) (merge_key (MERGE_COLS env) (m_cols row)), Print_no_similar],
      Inr (None, inp))"
  using assms by (simp add: close_match_row_def)

text \<open>One candidate, chosen with the answer \<^verbatim>\<open>0\<close>.\<close>

lemma close_match_row_single:
  assumes close: "get_closest_matches_indices env row dcn (MERGE_COLS env)
             (THRESHOLD_NAME_SIMILARITY env) (N_SIMILAR_TRACK_PROPOSAL env) = [j]"
    and shown: "loc_custom dc j = Some c0"
    and m: "loc_mixxx dmn (m_index row) = Some m"
    and c: "loc_custom dcn j = Some c"
  shows "close_match_row env dc dcn dmn row (''0'' # inp) =
     ([Print_finding (m_index row) (merge_key (MERGE_COLS env) (m_cols row)),
       Print_candidate 0 (merge_key (MERGE_COLS env) (c_cols c0)), Input_choose],
      Inr (Some (m_id m, m_location m, c_path c), inp))"
proof -
  have pc: "print_candidates (MERGE_COLS env) dc 0 [j]
              = ([Print_candidate 0 (merge_key (MERGE_COLS env) (c_cols c0))], Inr ())"
    by (simp add: shown)
  have acc: "''0'' \<in> set (ans_check [j])"
    by (simp add: ans_check_def str_nat_0)
  have ch: "chosen_match dcn dmn (m_index row) [j] ''0''
              = Inr (Some (m_id m, m_location m, c_path c))"
    using chosen_match_index [of 0 "[j]" dmn "m_index row" m dcn c] m c
    by (simp add: str_nat_0)
  show ?thesis
    by (simp add: close_match_row_asked [OF close _ pc] ask_choice_accept [OF acc] ch
        del: ask_choice.simps)
qed


lemma close_match_row_Some:
  assumes "snd (close_match_row env dc dcn dmn row inp) = Inr (Some x, rest)"
  shows "\<exists>m c. loc_mixxx dmn (m_index row) = Some m \<and> c \<in> set dcn
           \<and> x = (m_id m, m_location m, c_path c)"
proof -
  let ?close = "get_closest_matches_indices env row dcn (MERGE_COLS env)
                  (THRESHOLD_NAME_SIMILARITY env) (N_SIMILAR_TRACK_PROPOSAL env)"
  obtain evs r where pc: "print_candidates (MERGE_COLS env) dc 0 ?close = (evs, r)"
    by (cases "print_candidates (MERGE_COLS env) dc 0 ?close")
  obtain evs' r' where ac: "ask_choice (ans_check ?close) inp = (evs', r')"
    by (cases "ask_choice (ans_check ?close) inp")
  from assms have "\<exists>ans. chosen_match dcn dmn (m_index row) ?close ans = Inr (Some x)"
    by (auto simp: close_match_row_def Let_def pc ac split: sum.splits if_splits)
  then show ?thesis
    using chosen_match_Some by blast
qed

subsection \<open>The shape of a run\<close>

text \<open>A run that gets through the close match prints and writes the final table.\<close>

lemma fix_run:
  assumes "df_mixxx0 \<noteq> []"
    and "close_match env (prepare_custom env songs)
           (custom_nm (prepare_custom env songs) (df_custom_pm env df_mixxx0 songs))
           (df_mixxx_nm env df_mixxx0 songs) inp = (evs, Inr (cm, rest))"
  shows "fix_with_clementine_db env df_mixxx0 songs (''y'' # inp) =
     (Input_refreshed # evs
        @ [Print_merge_table (final_output (map pm_row (df_custom_pm env df_mixxx0 songs) @ cm))],
      Inr (final_output (map pm_row (df_custom_pm env df_mixxx0 songs) @ cm), rest))"
  using assms
  by (simp add: fix_with_clementine_db_def Let_def df_custom_pm_def df_mixxx_nm_def)

text \<open>The table of a run that ends well.\<close>

lemma fix_table:
  assumes "snd (fix_with_clementine_db env df_mixxx0 songs inp) = Inr (table, rest)"
  shows "\<exists>inp1 cm. snd (close_match env (prepare_custom env songs)
                      (custom_nm (prepare_custom env songs) (df_custom_pm env df_mixxx0 songs))
                      (df_mixxx_nm env df_mixxx0 songs) inp1) = Inr (cm, rest)
           \<and> table = final_output (map pm_row (df_custom_pm env df_mixxx0 songs) @ cm)"
proof -
  from assms obtain inp1 evs cm where
    "close_match env (prepare_custom env songs)
        (custom_nm (prepare_custom env songs) (df_custom_pm env df_mixxx0 songs))
        (df_mixxx_nm env df_mixxx0 songs) inp1 = (evs, Inr (cm, rest))"
    and "table = final_output (map pm_row (df_custom_pm env df_mixxx0 songs) @ cm)"
    by (auto simp: fix_with_clementine_db_def Let_def df_custom_pm_def df_mixxx_nm_def
        split: if_splits list.splits prod.splits sum.splits)
  then show ?thesis
    by (intro exI [of _ inp1] exI [of _ cm]) simp
qed

lemma final_output_mem:
  "r \<in> set (final_output rows) \<Longrightarrow>
     (library_idx r, location_idx r, path r) \<in> set rows
     \<and> filename r = path_name (path r) \<and> directory r = path_parent_as_posix (path r)"
  by (auto simp: final_output_def)

lemma map_library_idx_final_output: "map library_idx (final_output rows) = map fst rows"
  by (simp add: final_output_def comp_def split_def)

text \<open>With an empty residual the close match does nothing.\<close>

lemma close_match_nothing: "close_match env dc dcn [] inp = ([], Inr ([], inp))"
  by (simp add: close_match_def)

subsection \<open>The sample data evaluated\<close>

lemma sample_env_sel:
  "MERGE_COLS (sample_env_with g) = [''artist'', ''title'']"
  "THRESHOLD_NAME_SIMILARITY (sample_env_with g) = 3"
  "N_SIMILAR_TRACK_PROPOSAL (sample_env_with g) = 5"
  "file_url_to_path (sample_env_with g) = drop 7"
  "path_exists (sample_env_with g) = (\<lambda>p. True)"
  "remove_feat (sample_env_with g) = (\<lambda>c. c)"
  "get_closest_matches_indices (sample_env_with g) = g"
  by (simp_all add: sample_env_with_def)

lemma apply_remove_feat_id: "apply_remove_feat (\<lambda>c. c) f = f"
  by (auto simp: apply_remove_feat_def)

lemma sample_prepare_mixxx: "prepare_mixxx (sample_env_with g) df = df"
  by (simp add: prepare_mixxx_def sample_env_sel apply_remove_feat_id)

lemma sample_prepare_custom:
  "prepare_custom (sample_env_with g) [song_a, song_c] = [custom_a, custom_c]"
  "prepare_custom (sample_env_with g) [song_c] = [custom_c]"
  "prepare_custom (sample_env_with g) [song_a] = [custom_a]"
  "prepare_custom (sample_env_with g) [song_a, song_b] = [custom_a, custom_b]"
  by (simp_all add: prepare_custom_def sample_env_sel apply_remove_feat_id song_a_def song_b_def
      song_c_def custom_a_def custom_b_def custom_c_def)

lemma fillna_text_cols: "fillna [''artist'', ''title''] (text_cols a t) = text_cols a t"
  by (auto simp: fillna_def text_cols_def)

lemma sample_fillna:
  "fillna_mixxx [''artist'', ''title''] [mixxx_one, mixxx_two] = [mixxx_one, mixxx_two]"
  "fillna_mixxx [''artist'', ''title''] [mixxx_two, mixxx_three] = [mixxx_two, mixxx_three]"
  "fillna_mixxx [''artist'', ''title''] [mixxx_two] = [mixxx_two]"
  "fillna_custom [''artist'', ''title''] [custom_c] = [custom_c]"
  by (simp_all add: fillna_mixxx_def fillna_custom_def mixxx_one_def mixxx_two_def
      mixxx_three_def custom_c_def fillna_text_cols)

lemma sample_sort_values:
  "sort_values [mixxx_two, mixxx_three] = [mixxx_three, mixxx_two]"
  "sort_values [mixxx_one, mixxx_two] = [mixxx_one, mixxx_two]"
  "sort_values [mixxx_two] = [mixxx_two]"
  by (simp_all add: sort_values_def artist_title_def cell_key_def
      mixxx_one_def mixxx_two_def mixxx_three_def text_cols_def less_eq_prod_def less_prod_def)

lemma sample_distances:
  "fields_distance [''artist'', ''title''] mixxx_two custom_a = 1"
  "fields_distance [''artist'', ''title''] mixxx_two custom_c = 1"
  "fields_distance [''artist'', ''title''] mixxx_one custom_c = 1"
  "fields_distance [''artist'', ''title''] mixxx_three custom_c = 4"
  by (simp_all add: fields_distance_def mixxx_two_def mixxx_one_def mixxx_three_def
      custom_a_def custom_c_def text_cols_def cell_text_def)

lemma sample_keys:
  "m_index mixxx_one = 0" "m_id mixxx_one = 1" "m_location mixxx_one = 11"
  "m_index mixxx_two = 1" "m_id mixxx_two = 2" "m_location mixxx_two = 12"
  "m_index mixxx_three = 2" "m_id mixxx_three = 3" "m_location mixxx_three = 13"
  "c_index custom_a = 0" "c_path custom_a = ''/a.mp3''"
  "c_index custom_b = 1" "c_path custom_b = ''/m/b.mp3''"
  "c_index custom_c = 2" "c_path custom_c = ''/m/c.mp3''"
  by (simp_all add: mixxx_one_def mixxx_two_def mixxx_three_def custom_a_def custom_b_def
      custom_c_def)

lemma sample_merge_key:
  "merge_key [''artist'', ''title''] (m_cols mixxx_one) = [Some ''dp'', Some ''omt'']"
  "merge_key [''artist'', ''title''] (m_cols mixxx_two) = [Some ''dp'', Some ''omx'']"
  "merge_key [''artist'', ''title''] (m_cols mixxx_three) = [Some ''dp'', Some ''aero'']"
  "merge_key [''artist'', ''title''] (c_cols custom_a) = [Some ''dp'', Some ''omt'']"
  "merge_key [''artist'', ''title''] (c_cols custom_b) = [Some ''dp'', Some ''omt'']"
  "merge_key [''artist'', ''title''] (c_cols custom_c) = [Some ''dp'', Some ''om'']"
  by (simp_all add: merge_key_def mixxx_one_def mixxx_two_def mixxx_three_def custom_a_def
      custom_b_def custom_c_def text_cols_def)

lemma sample_proposals:
  "closest_matches_indices fields_distance mixxx_one [custom_c] [''artist'', ''title''] 3 5 = [2]"
  "closest_matches_indices fields_distance mixxx_two [custom_c] [''artist'', ''title''] 3 5 = [2]"
  "closest_matches_indices fields_distance mixxx_three [custom_c] [''artist'', ''title''] 3 5 = []"
  by (simp_all add: closest_matches_indices_def propose_candidates_def
      sample_distances sample_keys)

lemma sample_loc:
  "loc_custom [custom_c] 2 = Some custom_c"
  "loc_custom [custom_a, custom_c] 2 = Some custom_c"
  "loc_mixxx [mixxx_one, mixxx_two] 0 = Some mixxx_one"
  "loc_mixxx [mixxx_one, mixxx_two] 1 = Some mixxx_two"
  "loc_mixxx [mixxx_two, mixxx_three] 1 = Some mixxx_two"
  "loc_mixxx [mixxx_two] 1 = Some mixxx_two"
  by (simp_all add: loc_custom_def loc_mixxx_def sample_keys)

lemma sample_paths:
  "path_name ''/a.mp3'' = ''a.mp3''" "path_parent_as_posix ''/a.mp3'' = ''/''"
  "path_name ''/m/b.mp3'' = ''b.mp3''" "path_parent_as_posix ''/m/b.mp3'' = ''/m''"
  "path_name ''/m/c.mp3'' = ''c.mp3''" "path_parent_as_posix ''/m/c.mp3'' = ''/m''"
  by (simp_all add: path_name_def path_parent_as_posix_def parse_path_def splitroot_def
      path_str_def)

text \<open>The perfect matches and residuals of the samples.\<close>

lemma sample_perfect_match:
  "perfect_match [''artist'', ''title''] [custom_a, custom_c] [mixxx_one, mixxx_two]
     = [(custom_a, mixxx_one)]"
  "perfect_match [''artist'', ''title''] [custom_a, custom_b] [mixxx_one]
     = [(custom_a, mixxx_one), (custom_b, mixxx_one)]"
  "perfect_match [''artist'', ''title''] [custom_a] [mixxx_one] = [(custom_a, mixxx_one)]"
  "perfect_match [''artist'', ''title''] [custom_c] [mixxx_one, mixxx_two] = []"
  by (simp_all add: perfect_match_def sample_merge_key)

lemma sample_mixxx_nm:
  "mixxx_nm [mixxx_one, mixxx_two] [(custom_a, mixxx_one)] = [mixxx_two]"
  "mixxx_nm [mixxx_one] [(custom_a, mixxx_one), (custom_b, mixxx_one)] = []"
  "mixxx_nm [mixxx_one] [(custom_a, mixxx_one)] = []"
  "mixxx_nm [mixxx_one, mixxx_two] [] = [mixxx_one, mixxx_two]"
  by (simp_all add: mixxx_nm_def sample_keys)

lemma sample_custom_nm:
  "custom_nm [custom_a, custom_c] [(custom_a, mixxx_one)] = [custom_c]"
  "custom_nm [custom_c] [] = [custom_c]"
  by (simp_all add: custom_nm_def sample_keys)

lemma sample_pm:
  "df_custom_pm (sample_env_with g) [mixxx_one, mixxx_two] [song_a, song_c]
     = [(custom_a, mixxx_one)]"
  "df_custom_pm (sample_env_with g) [mixxx_one] [song_a, song_b]
     = [(custom_a, mixxx_one), (custom_b, mixxx_one)]"
  "df_custom_pm (sample_env_with g) [mixxx_one] [song_a] = [(custom_a, mixxx_one)]"
  "df_custom_pm (sample_env_with g) [mixxx_one, mixxx_two] [song_c] = []"
  by (simp_all add: df_custom_pm_def sample_env_sel sample_prepare_mixxx sample_prepare_custom
      sample_perfect_match)

lemma sample_nm:
  "df_mixxx_nm (sample_env_with g) [mixxx_one, mixxx_two] [song_a, song_c] = [mixxx_two]"
  "df_mixxx_nm (sample_env_with g) [mixxx_one] [song_a, song_b] = []"
  "df_mixxx_nm (sample_env_with g) [mixxx_one] [song_a] = []"
  "df_mixxx_nm (sample_env_with g) [mixxx_one, mixxx_two] [song_c] = [mixxx_one, mixxx_two]"
  by (simp_all add: df_mixxx_nm_def sample_pm sample_prepare_mixxx sample_mixxx_nm)

text \<open>Rows of the close match on the samples, for any proposer with the given proposals.\<close>

lemma sample_row_one:
  assumes "g mixxx_one [custom_c] [''artist'', ''title''] 3 5 = [2]"
  shows "close_match_row (sample_env_with g) [custom_c] [custom_c] [mixxx_one, mixxx_two]
           mixxx_one (''0'' # inp)
     = ([Print_finding 0 [Some ''dp'', Some ''omt''],
         Print_candidate 0 [Some ''dp'', Some ''om''], Input_choose],
        Inr (Some (1, 11, ''/m/c.mp3''), inp))"
  using close_match_row_single [of "sample_env_with g" mixxx_one "[custom_c]" 2 "[custom_c]"
      custom_c "[mixxx_one, mixxx_two]" mixxx_one custom_c inp] assms
  by (simp add: sample_env_sel sample_loc sample_keys sample_merge_key)

lemma sample_row_two:
  assumes "g mixxx_two [custom_c] [''artist'', ''title''] 3 5 = [2]"
    and "loc_custom dc 2 = Some custom_c" and "loc_mixxx dmn 1 = Some mixxx_two"
  shows "close_match_row (sample_env_with g) dc [custom_c] dmn mixxx_two (''0'' # inp)
     = ([Print_finding 1 [Some ''dp'', Some ''omx''],
         Print_candidate 0 [Some ''dp'', Some ''om''], Input_choose],
        Inr (Some (2, 12, ''/m/c.mp3''), inp))"
  using close_match_row_single [of "sample_env_with g" mixxx_two "[custom_c]" 2 dc
      custom_c dmn mixxx_two custom_c inp] assms
  by (simp add: sample_env_sel sample_loc sample_keys sample_merge_key)

lemma sample_row_three:
  assumes "g mixxx_three [custom_c] [''artist'', ''title''] 3 5 = []"
  shows "close_match_row (sample_env_with g) dc [custom_c] dmn mixxx_three inp
     = ([Print_finding 2 [Some ''dp'', Some ''aero''], Print_no_similar], Inr (None, inp))"
  using close_match_row_none [of "sample_env_with g" mixxx_three "[custom_c]" dc dmn inp] assms
  by (simp add: sample_env_sel sample_keys sample_merge_key)

text \<open>Two residual rows, out of order in the frame; the second one in the order of the
  loop gets the candidate.\<close>

lemma sample_close_match_sorted:
  assumes "g mixxx_three [custom_c] [''artist'', ''title''] 3 5 = []"
    and "g mixxx_two [custom_c] [''artist'', ''title''] 3 5 = [2]"
  shows "close_match (sample_env_with g) [custom_c] [custom_c] [mixxx_two, mixxx_three] [''0'']
     = ([Print_not_found 2, Print_finding 2 [Some ''dp'', Some ''aero''], Print_no_similar,
         Print_finding 1 [Some ''dp'', Some ''omx''],
         Print_candidate 0 [Some ''dp'', Some ''om''], Input_choose],
        Inr ([(2, 12, ''/m/c.mp3'')], []))"
  by (simp add: close_match_def sample_env_sel sample_fillna sample_sort_values
      sample_row_three [where g = g, OF assms(1)] sample_row_two [where g = g, OF assms(2)] sample_loc)

text \<open>Both residual rows get the one candidate.\<close>

lemma sample_close_match_both:
  assumes "g mixxx_one [custom_c] [''artist'', ''title''] 3 5 = [2]"
    and "g mixxx_two [custom_c] [''artist'', ''title''] 3 5 = [2]"
  shows "close_match (sample_env_with g) [custom_c] [custom_c] [mixxx_one, mixxx_two]
           [''0'', ''0'']
     = ([Print_not_found 2, Print_finding 0 [Some ''dp'', Some ''omt''],
         Print_candidate 0 [Some ''dp'', Some ''om''], Input_choose,
         Print_finding 1 [Some ''dp'', Some ''omx''],
         Print_candidate 0 [Some ''dp'', Some ''om''], Input_choose],
        Inr ([(1, 11, ''/m/c.mp3''), (2, 12, ''/m/c.mp3'')], []))"
  by (simp add: close_match_def sample_env_sel sample_fillna sample_sort_values
      sample_row_one [where g = g, OF assms(1)] sample_row_two [where g = g, OF assms(2)] sample_loc)

text \<open>One row matched perfectly, the other one closely.\<close>

lemma sample_close_match_second:
  assumes "g mixxx_two [custom_c] [''artist'', ''title''] 3 5 = [2]"
  shows "close_match (sample_env_with g) [custom_a, custom_c] [custom_c] [mixxx_two] [''0'']
     = ([Print_not_found 1, Print_finding 1 [Some ''dp'', Some ''omx''],
         Print_candidate 0 [Some ''dp'', Some ''om''], Input_choose],
        Inr ([(2, 12, ''/m/c.mp3'')], []))"
  by (simp add: close_match_def sample_env_sel sample_fillna sample_sort_values
      sample_row_two [where g = g, OF assms] sample_loc)

text \<open>Whole runs on the samples.\<close>

lemma sample_final_output:
  "final_output [(1, 11, ''/a.mp3''), (1, 11, ''/m/b.mp3'')] = [final_a, final_b]"
  "final_output [(1, 11, ''/a.mp3'')] = [final_a]"
  "final_output [(1, 11, ''/m/c.mp3''), (2, 12, ''/m/c.mp3'')] = [final_c1, final_c2]"
  "final_output [(1, 11, ''/a.mp3''), (2, 12, ''/m/c.mp3'')] = [final_a, final_c2]"
  by (simp_all add: final_output_def sample_paths final_a_def final_b_def final_c1_def
      final_c2_def)

lemma sample_pm_rows:
  "pm_row (custom_a, mixxx_one) = (1, 11, ''/a.mp3'')"
  "pm_row (custom_b, mixxx_one) = (1, 11, ''/m/b.mp3'')"
  by (simp_all add: pm_row_def sample_keys)

lemma sample_run_duplicate:
  "fix_with_clementine_db (sample_env_with g) [mixxx_one] [song_a, song_b] [''y'']
     = ([Input_refreshed, Print_merge_table [final_a, final_b]], Inr ([final_a, final_b], []))"
proof -
  have "close_match (sample_env_with g) (prepare_custom (sample_env_with g) [song_a, song_b])
          (custom_nm (prepare_custom (sample_env_with g) [song_a, song_b])
             (df_custom_pm (sample_env_with g) [mixxx_one] [song_a, song_b]))
          (df_mixxx_nm (sample_env_with g) [mixxx_one] [song_a, song_b]) []
        = ([], Inr ([], []))"
    by (simp add: sample_nm close_match_nothing)
  from fix_run [OF _ this] show ?thesis
    by (simp add: sample_pm sample_pm_rows sample_final_output)
qed

lemma sample_run_exact:
  "fix_with_clementine_db (sample_env_with g) [mixxx_one] [song_a] [''y'']
     = ([Input_refreshed, Print_merge_table [final_a]], Inr ([final_a], []))"
proof -
  have "close_match (sample_env_with g) (prepare_custom (sample_env_with g) [song_a])
          (custom_nm (prepare_custom (sample_env_with g) [song_a])
             (df_custom_pm (sample_env_with g) [mixxx_one] [song_a]))
          (df_mixxx_nm (sample_env_with g) [mixxx_one] [song_a]) []
        = ([], Inr ([], []))"
    by (simp add: sample_nm close_match_nothing)
  from fix_run [OF _ this] show ?thesis
    by (simp add: sample_pm sample_pm_rows sample_final_output)
qed

lemma sample_run_both:
  assumes "g mixxx_one [custom_c] [''artist'', ''title''] 3 5 = [2]"
    and "g mixxx_two [custom_c] [''artist'', ''title''] 3 5 = [2]"
  shows "fix_with_clementine_db (sample_env_with g) [mixxx_one, mixxx_two] [song_c]
           [''y'', ''0'', ''0'']
     = ([Input_refreshed, Print_not_found 2,
         Print_finding 0 [Some ''dp'', Some ''omt''],
         Print_candidate 0 [Some ''dp'', Some ''om''], Input_choose,
         Print_finding 1 [Some ''dp'', Some ''omx''],
         Print_candidate 0 [Some ''dp'', Some ''om''], Input_choose,
         Print_merge_table [final_c1, final_c2]],
        Inr ([final_c1, final_c2], []))"
proof -
  have "close_match (sample_env_with g) (prepare_custom (sample_env_with g) [song_c])
          (custom_nm (prepare_custom (sample_env_with g) [song_c])
             (df_custom_pm (sample_env_with g) [mixxx_one, mixxx_two] [song_c]))
          (df_mixxx_nm (sample_env_with g) [mixxx_one, mixxx_two] [song_c]) [''0'', ''0'']
        = ([Print_not_found 2, Print_finding 0 [Some ''dp'', Some ''omt''],
            Print_candidate 0 [Some ''dp'', Some ''om''], Input_choose,
            Print_finding 1 [Some ''dp'', Some ''omx''],
            Print_candidate 0 [Some ''dp'', Some ''om''], Input_choose],
           Inr ([(1, 11, ''/m/c.mp3''), (2, 12, ''/m/c.mp3'')], []))"
    by (simp add: sample_prepare_custom sample_pm sample_nm sample_custom_nm
        sample_close_match_both [where g = g, OF assms])
  from fix_run [OF _ this] show ?thesis
    by (simp add: sample_pm sample_final_output)
qed

lemma sample_run_mixed:
  assumes "g mixxx_two [custom_c] [''artist'', ''title''] 3 5 = [2]"
  shows "fix_with_clementine_db (sample_env_with g) [mixxx_one, mixxx_two]
           [song_a, song_c] [''y'', ''0'']
     = ([Input_refreshed, Print_not_found 1, Print_finding 1 [Some ''dp'', Some ''omx''],
         Print_candidate 0 [Some ''dp'', Some ''om''], Input_choose,
         Print_merge_table [final_a, final_c2]],
        Inr ([final_a, final_c2], []))"
proof -
  have "close_match (sample_env_with g) (prepare_custom (sample_env_with g) [song_a, song_c])
          (custom_nm (prepare_custom (sample_env_with g) [song_a, song_c])
             (df_custom_pm (sample_env_with g) [mixxx_one, mixxx_two] [song_a, song_c]))
          (df_mixxx_nm (sample_env_with g) [mixxx_one, mixxx_two] [song_a, song_c]) [''0'']
        = ([Print_not_found 1, Print_finding 1 [Some ''dp'', Some ''omx''],
            Print_candidate 0 [Some ''dp'', Some ''om''], Input_choose],
           Inr ([(2, 12, ''/m/c.mp3'')], []))"
    by (simp add: sample_prepare_custom sample_pm sample_nm sample_custom_nm
        sample_close_match_second [where g = g, OF assms])
  from fix_run [OF _ this] show ?thesis
    by (simp add: sample_pm sample_pm_rows sample_final_output)
qed

lemma sample_env_run_mixed:
  "snd (fix_with_clementine_db sample_env [mixxx_one, mixxx_two] [song_a, song_c]
          [''y'', ''0'']) = Inr ([final_a, final_c2], [])"
  unfolding sample_env_def
  by (simp add: sample_run_mixed [where g = "closest_matches_indices fields_distance"]
      sample_proposals)

lemma sample_final_keys:
  "library_idx final_a = 1" "location_idx final_a = 11" "path final_a = ''/a.mp3''"
  "filename final_a = ''a.mp3''" "directory final_a = ''/''"
  "library_idx final_b = 1" "location_idx final_b = 11" "path final_b = ''/m/b.mp3''"
  "library_idx final_c1 = 1" "location_idx final_c1 = 11" "path final_c1 = ''/m/c.mp3''"
  "library_idx final_c2 = 2" "location_idx final_c2 = 12" "path final_c2 = ''/m/c.mp3''"
  "filename final_c2 = ''c.mp3''" "directory final_c2 = ''/m''"
  by (simp_all add: final_a_def final_b_def final_c1_def final_c2_def)

subsection \<open>Exact matches and residuals\<close>

text \<open>
  C2. Every pair of the perfect match agrees on all merge columns; a row left in the
  Mixxx residual agrees with no row of the other frame on all merge columns, and a row
  left in the other residual agrees with no Mixxx row on all of them.
\<close>

theorem exact_match_completeness:
  "(\<forall>(c, m) \<in> set (perfect_match cols dc dm). \<forall>k \<in> set cols. m_cols m k = c_cols c k)
   \<and> (\<forall>m \<in> set (mixxx_nm dm (perfect_match cols dc dm)).
        \<forall>c \<in> set dc. \<exists>k \<in> set cols. m_cols m k \<noteq> c_cols c k)
   \<and> (\<forall>c \<in> set (custom_nm dc (perfect_match cols dc dm)).
        \<forall>m \<in> set dm. \<exists>k \<in> set cols. m_cols m k \<noteq> c_cols c k)"
proof (intro conjI)
  show "\<forall>(c, m) \<in> set (perfect_match cols dc dm). \<forall>k \<in> set cols. m_cols m k = c_cols c k"
    by (auto simp: set_perfect_match merge_key_eq_iff)
next
  show "\<forall>m \<in> set (mixxx_nm dm (perfect_match cols dc dm)).
          \<forall>c \<in> set dc. \<exists>k \<in> set cols. m_cols m k \<noteq> c_cols c k"
  proof (intro ballI)
    fix m c
    assume m: "m \<in> set (mixxx_nm dm (perfect_match cols dc dm))" and c: "c \<in> set dc"
    from m have mdm: "m \<in> set dm"
      and notin: "m_index m \<notin> (m_index \<circ> snd) ` set (perfect_match cols dc dm)"
      by (auto simp: mixxx_nm_def)
    have "(c, m) \<notin> set (perfect_match cols dc dm)"
      using notin by force
    with c mdm have "merge_key cols (m_cols m) \<noteq> merge_key cols (c_cols c)"
      by (simp add: set_perfect_match)
    then show "\<exists>k \<in> set cols. m_cols m k \<noteq> c_cols c k"
      by (simp add: merge_key_eq_iff)
  qed
next
  show "\<forall>c \<in> set (custom_nm dc (perfect_match cols dc dm)).
          \<forall>m \<in> set dm. \<exists>k \<in> set cols. m_cols m k \<noteq> c_cols c k"
  proof (intro ballI)
    fix m c
    assume c: "c \<in> set (custom_nm dc (perfect_match cols dc dm))" and mdm: "m \<in> set dm"
    from c have cdc: "c \<in> set dc"
      and notin: "c_index c \<notin> (c_index \<circ> fst) ` set (perfect_match cols dc dm)"
      by (auto simp: custom_nm_def)
    have "(c, m) \<notin> set (perfect_match cols dc dm)"
      using notin by force
    with cdc mdm have "merge_key cols (m_cols m) \<noteq> merge_key cols (c_cols c)"
      by (simp add: set_perfect_match)
    then show "\<exists>k \<in> set cols. m_cols m k \<noteq> c_cols c k"
      by (simp add: merge_key_eq_iff)
  qed
qed

theorem exact_match_completeness_witness:
  "(custom_a, mixxx_one)
     \<in> set (perfect_match [''artist'', ''title''] [custom_a, custom_c] [mixxx_one, mixxx_two])
   \<and> m_cols mixxx_one ''artist'' = c_cols custom_a ''artist''
   \<and> m_cols mixxx_one ''title'' = c_cols custom_a ''title''
   \<and> mixxx_two \<in> set (mixxx_nm [mixxx_one, mixxx_two]
        (perfect_match [''artist'', ''title''] [custom_a, custom_c] [mixxx_one, mixxx_two]))
   \<and> (\<exists>k \<in> set [''artist'', ''title'']. m_cols mixxx_two k \<noteq> c_cols custom_a k)
   \<and> (\<exists>k \<in> set [''artist'', ''title'']. m_cols mixxx_two k \<noteq> c_cols custom_c k)
   \<and> custom_c \<in> set (custom_nm [custom_a, custom_c]
        (perfect_match [''artist'', ''title''] [custom_a, custom_c] [mixxx_one, mixxx_two]))
   \<and> (\<exists>k \<in> set [''artist'', ''title'']. m_cols mixxx_one k \<noteq> c_cols custom_c k)"
proof -
  have pm: "(custom_a, mixxx_one)
      \<in> set (perfect_match [''artist'', ''title''] [custom_a, custom_c] [mixxx_one, mixxx_two])"
    by (simp add: sample_perfect_match)
  have nm: "mixxx_two \<in> set (mixxx_nm [mixxx_one, mixxx_two]
        (perfect_match [''artist'', ''title''] [custom_a, custom_c] [mixxx_one, mixxx_two]))"
    by (simp add: sample_perfect_match sample_mixxx_nm)
  have nc: "custom_c \<in> set (custom_nm [custom_a, custom_c]
        (perfect_match [''artist'', ''title''] [custom_a, custom_c] [mixxx_one, mixxx_two]))"
    by (simp add: sample_perfect_match sample_custom_nm)
  have mem: "custom_a \<in> set [custom_a, custom_c]" "custom_c \<in> set [custom_a, custom_c]"
    "mixxx_one \<in> set [mixxx_one, mixxx_two]"
    "''artist'' \<in> set [''artist'', ''title'']" "''title'' \<in> set [''artist'', ''title'']"
    by simp_all
  show ?thesis
    using pm nm nc mem
      exact_match_completeness [of "[''artist'', ''title'']" "[custom_a, custom_c]"
        "[mixxx_one, mixxx_two]"]
    by blast
qed

text \<open>
  C3. With pairwise different index labels in each frame, the labels of the Mixxx
  residual together with the set of Mixxx labels occurring in the perfect match are
  the labels of the Mixxx frame, each exactly once (an equation of multisets, the
  labels of the matched pairs counted once each); the same holds for the other frame.
\<close>

theorem residual_partition:
  assumes "distinct (map m_index dm)" and "distinct (map c_index dc)"
  shows "mset (map m_index (mixxx_nm dm (perfect_match cols dc dm)))
           + mset (remdups (map (m_index \<circ> snd) (perfect_match cols dc dm)))
         = mset (map m_index dm)
       \<and> mset (map c_index (custom_nm dc (perfect_match cols dc dm)))
           + mset (remdups (map (c_index \<circ> fst) (perfect_match cols dc dm)))
         = mset (map c_index dc)"
proof
  show "mset (map m_index (mixxx_nm dm (perfect_match cols dc dm)))
           + mset (remdups (map (m_index \<circ> snd) (perfect_match cols dc dm)))
         = mset (map m_index dm)"
    by (rule partition_mset [OF assms(1) distinct_mixxx_nm [OF assms(1)]
          mixxx_nm_indices mixxx_nm_disjoint])
  show "mset (map c_index (custom_nm dc (perfect_match cols dc dm)))
           + mset (remdups (map (c_index \<circ> fst) (perfect_match cols dc dm)))
         = mset (map c_index dc)"
    by (rule partition_mset [OF assms(2) distinct_custom_nm [OF assms(2)]
          custom_nm_indices custom_nm_disjoint])
qed

theorem residual_partition_witness:
  "distinct (map m_index [mixxx_one, mixxx_two])
   \<and> distinct (map c_index [custom_a, custom_c])
   \<and> mset (map m_index (mixxx_nm [mixxx_one, mixxx_two]
        (perfect_match [''artist'', ''title''] [custom_a, custom_c] [mixxx_one, mixxx_two])))
       + mset (remdups (map (m_index \<circ> snd)
           (perfect_match [''artist'', ''title''] [custom_a, custom_c] [mixxx_one, mixxx_two])))
     = mset (map m_index [mixxx_one, mixxx_two])
   \<and> mset (map c_index (custom_nm [custom_a, custom_c]
        (perfect_match [''artist'', ''title''] [custom_a, custom_c] [mixxx_one, mixxx_two])))
       + mset (remdups (map (c_index \<circ> fst)
           (perfect_match [''artist'', ''title''] [custom_a, custom_c] [mixxx_one, mixxx_two])))
     = mset (map c_index [custom_a, custom_c])"
proof -
  have dm: "distinct (map m_index [mixxx_one, mixxx_two])"
    by (simp add: sample_keys)
  have dc: "distinct (map c_index [custom_a, custom_c])"
    by (simp add: sample_keys)
  show ?thesis
    using dm dc residual_partition [OF dm dc, of "[''artist'', ''title'']"] by blast
qed

subsection \<open>The proposer of the specification\<close>

lemma lex_pair_le:
  "(x::('d::linorder) \<times> int) \<le> y \<Longrightarrow> fst x < fst y \<or> (fst x = fst y \<and> snd x \<le> snd y)"
  by (auto simp: less_eq_prod_def)

lemma sorted_wrt_lex_sort:
  "sorted_wrt (\<lambda>x y. fst x < fst y \<or> (fst x = fst y \<and> snd x \<le> snd y))
     (sort_key (\<lambda>x. x) (xs :: (('d::linorder) \<times> int) list))"
proof -
  have "sorted (map (\<lambda>x. x) (sort_key (\<lambda>x. x) xs))"
    by (rule sorted_sort_key)
  then have "sorted_wrt (\<le>) (sort_key (\<lambda>x. x) xs)"
    by simp
  then show ?thesis
    by (rule sorted_wrt_mono_rel [rotated]) (simp add: lex_pair_le)
qed

text \<open>
  C7. Against the proposer of the specification: at most \<^verbatim>\<open>max_candidates\<close>
  candidates (and as many indices) are returned, each the distance and index of a pool
  record with a distance strictly below the threshold, in ascending order of distance
  and, for equal distances, of pool index.
\<close>

theorem candidate_bound_and_order:
  "length (propose_candidates dist record pool cols threshold n) \<le> n
   \<and> length (closest_matches_indices dist record pool cols threshold n) \<le> n
   \<and> (\<forall>x \<in> set (propose_candidates dist record pool cols threshold n).
        fst x < threshold \<and> (\<exists>c \<in> set pool. x = (dist cols record c, c_index c)))
   \<and> sorted_wrt (\<lambda>x y. fst x < fst y \<or> (fst x = fst y \<and> snd x \<le> snd y))
        (propose_candidates dist record pool cols threshold n)"
proof (intro conjI)
  show "length (propose_candidates dist record pool cols threshold n) \<le> n"
    by (simp add: propose_candidates_def)
  then show "length (closest_matches_indices dist record pool cols threshold n) \<le> n"
    by (simp add: closest_matches_indices_def)
  show "\<forall>x \<in> set (propose_candidates dist record pool cols threshold n).
          fst x < threshold \<and> (\<exists>c \<in> set pool. x = (dist cols record c, c_index c))"
  proof
    fix x
    assume "x \<in> set (propose_candidates dist record pool cols threshold n)"
    then have "x \<in> set (sort_key (\<lambda>x. x) (filter (\<lambda>x. fst x < threshold)
                 (map (\<lambda>c. (dist cols record c, c_index c)) pool)))"
      unfolding propose_candidates_def by (rule in_set_takeD)
    then show "fst x < threshold \<and> (\<exists>c \<in> set pool. x = (dist cols record c, c_index c))"
      by auto
  qed
  show "sorted_wrt (\<lambda>x y. fst x < fst y \<or> (fst x = fst y \<and> snd x \<le> snd y))
          (propose_candidates dist record pool cols threshold n)"
    unfolding propose_candidates_def by (rule sorted_wrt_take) (rule sorted_wrt_lex_sort)
qed

lemma sample_proposal:
  "propose_candidates fields_distance mixxx_two [custom_c, custom_a] [''artist'', ''title''] 3 5
     = [(1, 0), (1, 2)]"
  by (simp add: propose_candidates_def sample_distances sample_keys)

theorem candidate_bound_and_order_witness:
  "(1, 0) \<in> set (propose_candidates fields_distance mixxx_two [custom_c, custom_a]
                    [''artist'', ''title''] 3 5)
   \<and> fst ((1, 0) :: nat \<times> int) < 3
   \<and> (\<exists>c \<in> set [custom_c, custom_a].
         ((1, 0) :: nat \<times> int) = (fields_distance [''artist'', ''title''] mixxx_two c, c_index c))
   \<and> length (propose_candidates fields_distance mixxx_two [custom_c, custom_a]
                [''artist'', ''title''] 3 5) \<le> 5"
proof -
  have "(1, 0) \<in> set (propose_candidates fields_distance mixxx_two [custom_c, custom_a]
                    [''artist'', ''title''] 3 5)"
    by (simp add: sample_proposal)
  then show ?thesis
    using candidate_bound_and_order [of fields_distance mixxx_two "[custom_c, custom_a]"
        "[''artist'', ''title'']" 3 5]
    by blast
qed

subsection \<open>Answers of the operator\<close>





subsection \<open>The order of the close match\<close>

lemma evaluated_simps:
  "evaluated [] = []"
  "evaluated (Print_finding idx vals # evs) = idx # evaluated evs"
  "evaluated (Print_no_similar # evs) = evaluated evs"
  "evaluated (Print_candidate i vals # evs) = evaluated evs"
  "evaluated (Input_choose # evs) = evaluated evs"
  "evaluated (Print_not_found n # evs) = evaluated evs"
  "evaluated (Input_refreshed # evs) = evaluated evs"
  "evaluated (Print_merge_table t # evs) = evaluated evs"
  by (simp_all add: evaluated_def)

lemma evaluated_append: "evaluated (xs @ ys) = evaluated xs @ evaluated ys"
  by (simp add: evaluated_def List.map_filter_def)

lemma evaluated_print_candidates: "evaluated (fst (print_candidates cols dc i close)) = []"
proof (induction close arbitrary: i)
  case Nil
  show ?case by (simp add: evaluated_simps)
next
  case (Cons idx idxs)
  show ?case
    using Cons.IH [of "Suc i"]
    by (cases "print_candidates cols dc (Suc i) idxs")
      (auto simp: evaluated_simps split: option.splits)
qed

lemma evaluated_ask_choice: "evaluated (fst (ask_choice chk inp)) = []"
proof (induction inp)
  case Nil
  show ?case by (simp add: evaluated_simps)
next
  case (Cons a inp)
  then show ?case
    by (cases "ask_choice chk inp") (auto simp: evaluated_simps)
qed

lemma evaluated_close_match_row:
  "evaluated (fst (close_match_row env dc dcn dmn row inp)) = [m_index row]"
proof -
  let ?close = "get_closest_matches_indices env row dcn (MERGE_COLS env)
                  (THRESHOLD_NAME_SIMILARITY env) (N_SIMILAR_TRACK_PROPOSAL env)"
  obtain evs r where pc: "print_candidates (MERGE_COLS env) dc 0 ?close = (evs, r)"
    by (cases "print_candidates (MERGE_COLS env) dc 0 ?close")
  obtain evs' r' where ac: "ask_choice (ans_check ?close) inp = (evs', r')"
    by (cases "ask_choice (ans_check ?close) inp")
  have e1: "evaluated evs = []"
    using evaluated_print_candidates [of "MERGE_COLS env" dc 0 ?close] by (simp add: pc)
  have e2: "evaluated evs' = []"
    using evaluated_ask_choice [of "ans_check ?close" inp] by (simp add: ac)
  show ?thesis
    by (simp add: close_match_row_def Let_def pc ac e1 e2 evaluated_simps evaluated_append
        split: sum.splits prod.splits)
qed

lemma evaluated_close_match_loop:
  "prefix (evaluated (fst (close_match_loop env dc dcn dmn rows acc inp))) (map m_index rows)
   \<and> (\<forall>res. snd (close_match_loop env dc dcn dmn rows acc inp) = Inr res
        \<longrightarrow> evaluated (fst (close_match_loop env dc dcn dmn rows acc inp)) = map m_index rows)"
proof (induction rows arbitrary: acc inp)
  case Nil
  show ?case by (simp add: evaluated_simps)
next
  case (Cons row rows)
  obtain evs r where row: "close_match_row env dc dcn dmn row inp = (evs, r)"
    by (cases "close_match_row env dc dcn dmn row inp")
  have ev: "evaluated evs = [m_index row]"
    using evaluated_close_match_row [of env dc dcn dmn row inp] by (simp add: row)
  show ?case
  proof (cases r)
    case (Inl e)
    then show ?thesis
      by (simp add: row ev)
  next
    case (Inr fr)
    obtain found rest where fr: "fr = (found, rest)"
      by (cases fr)
    let ?next = "close_match_loop env dc dcn dmn rows
                   (acc @ (case found of None \<Rightarrow> [] | Some r \<Rightarrow> [r])) rest"
    obtain evs' r' where nxt: "?next = (evs', r')"
      by (cases ?next)
    have "prefix (evaluated evs') (map m_index rows)
          \<and> (\<forall>res. r' = Inr res \<longrightarrow> evaluated evs' = map m_index rows)"
      using Cons.IH [of "acc @ (case found of None \<Rightarrow> [] | Some r \<Rightarrow> [r])" rest]
      by (simp add: nxt)
    then show ?thesis
      by (simp add: row Inr fr nxt ev evaluated_append)
  qed
qed

lemma evaluated_close_match:
  "evaluated (fst (close_match env dc dcn dmn inp))
     = evaluated (fst (close_match_loop env dc (fillna_custom (MERGE_COLS env) dcn)
          (fillna_mixxx (MERGE_COLS env) dmn)
          (sort_values (fillna_mixxx (MERGE_COLS env) dmn)) [] inp))
   \<and> (dmn \<noteq> [] \<longrightarrow> snd (close_match env dc dcn dmn inp)
     = snd (close_match_loop env dc (fillna_custom (MERGE_COLS env) dcn)
          (fillna_mixxx (MERGE_COLS env) dmn)
          (sort_values (fillna_mixxx (MERGE_COLS env) dmn)) [] inp))"
proof (cases "dmn = []")
  case True
  then show ?thesis
    by (simp add: close_match_def fillna_mixxx_def sort_values_def evaluated_simps)
next
  case False
  then show ?thesis
    by (simp add: close_match_def Let_def evaluated_simps split: prod.splits)
qed

text \<open>
  C6. The rows that the close match goes through are the residual (after
  \<^verbatim>\<open>fillna\<close>) sorted by artist and title, a sorted permutation of it. The rows
  evaluated in a run, read off the trace, are a prefix of that list, whatever ends
  the run, and the whole list when the stage ends well. For rows with an artist and
  a title the order is: smaller artist, or equal artists and no greater title.
\<close>

theorem fuzzy_evaluation_order:
  "sorted (map artist_title (sort_values (fillna_mixxx (MERGE_COLS env) dmn)))
   \<and> mset (sort_values (fillna_mixxx (MERGE_COLS env) dmn))
       = mset (fillna_mixxx (MERGE_COLS env) dmn)
   \<and> prefix (evaluated (fst (close_match env dc dcn dmn inp)))
       (map m_index (sort_values (fillna_mixxx (MERGE_COLS env) dmn)))
   \<and> (snd (close_match env dc dcn dmn inp) = Inr res \<longrightarrow>
        evaluated (fst (close_match env dc dcn dmn inp))
          = map m_index (sort_values (fillna_mixxx (MERGE_COLS env) dmn)))
   \<and> (m_cols m ''artist'' = Some a \<and> m_cols m ''title'' = Some t
        \<and> m_cols m' ''artist'' = Some a' \<and> m_cols m' ''title'' = Some t' \<longrightarrow>
        (artist_title m \<le> artist_title m') = (a < a' \<or> (a = a' \<and> t \<le> t')))"
proof (intro conjI impI)
  let ?rows = "sort_values (fillna_mixxx (MERGE_COLS env) dmn)"
  let ?loop = "close_match_loop env dc (fillna_custom (MERGE_COLS env) dcn)
          (fillna_mixxx (MERGE_COLS env) dmn) ?rows [] inp"
  note cm = evaluated_close_match [of env dc dcn dmn inp]
  note lp = evaluated_close_match_loop [of env dc
      "fillna_custom (MERGE_COLS env) dcn"
      "fillna_mixxx (MERGE_COLS env) dmn" ?rows "[]" inp]
  show "sorted (map artist_title ?rows)"
    by (simp add: sort_values_def)
  show "mset ?rows = mset (fillna_mixxx (MERGE_COLS env) dmn)"
    by (simp add: sort_values_def)
  show "prefix (evaluated (fst (close_match env dc dcn dmn inp)))
          (map m_index ?rows)"
    using cm lp by simp
  {
    assume ok: "snd (close_match env dc dcn dmn inp) = Inr res"
    show "evaluated (fst (close_match env dc dcn dmn inp))
            = map m_index ?rows"
    proof (cases "dmn = []")
      case True
      then show ?thesis
        by (simp add: close_match_def fillna_mixxx_def sort_values_def evaluated_simps)
    next
      case False
      then have "snd ?loop = Inr res"
        using cm ok by simp
      then show ?thesis
        using cm lp by simp
    qed
  }
  {
    assume "m_cols m ''artist'' = Some a \<and> m_cols m ''title'' = Some t
        \<and> m_cols m' ''artist'' = Some a' \<and> m_cols m' ''title'' = Some t'"
    then show "(artist_title m \<le> artist_title m') = (a < a' \<or> (a = a' \<and> t \<le> t'))"
      by (auto simp: artist_title_def cell_key_def less_eq_prod_def less_prod_def)
  }
qed

theorem fuzzy_evaluation_order_witness:
  "snd (close_match sample_env [custom_c] [custom_c] [mixxx_two, mixxx_three] [''0''])
     = Inr ([(2, 12, ''/m/c.mp3'')], [])
   \<and> evaluated (fst (close_match sample_env [custom_c] [custom_c] [mixxx_two, mixxx_three]
        [''0''])) = [2, 1]
   \<and> map m_index [mixxx_two, mixxx_three] = [1, 2]
   \<and> m_cols mixxx_three ''artist'' = Some ''dp'' \<and> m_cols mixxx_three ''title'' = Some ''aero''
   \<and> m_cols mixxx_two ''artist'' = Some ''dp'' \<and> m_cols mixxx_two ''title'' = Some ''omx''
   \<and> artist_title mixxx_three \<le> artist_title mixxx_two"
proof -
  have run: "snd (close_match sample_env [custom_c] [custom_c] [mixxx_two, mixxx_three] [''0''])
     = Inr ([(2, 12, ''/m/c.mp3'')], [])"
    unfolding sample_env_def
    by (simp add: sample_close_match_sorted [where g = "closest_matches_indices fields_distance"]
        sample_proposals)
  have cols: "m_cols mixxx_three ''artist'' = Some ''dp''"
    "m_cols mixxx_three ''title'' = Some ''aero''"
    "m_cols mixxx_two ''artist'' = Some ''dp''" "m_cols mixxx_two ''title'' = Some ''omx''"
    by (simp_all add: mixxx_two_def mixxx_three_def text_cols_def)
  have le: "''aero'' \<le> ''omx''"
    by simp
  have cols_env: "MERGE_COLS sample_env = [''artist'', ''title'']"
    by (simp add: sample_env_def sample_env_sel)
  show ?thesis
    using run cols le
      fuzzy_evaluation_order [of sample_env "[mixxx_two, mixxx_three]" "[custom_c]" "[custom_c]"
        "[''0'']" "([(2, 12, ''/m/c.mp3'')], [])" mixxx_three "''dp''" "''aero''"
        mixxx_two "''dp''" "''omx''"]
    by (simp add: cols_env sample_fillna sample_sort_values sample_keys)
qed

subsection \<open>Where the rows of the final table come from\<close>

text \<open>
  What the loop adds to \<^verbatim>\<open>list_idx_cm\<close>: one row for each of some of the rows it
  goes through, in their order.
\<close>

lemma close_match_loop_rows:
  assumes "snd (close_match_loop env dc dcn dmn rows acc inp) = Inr (out, rest)"
  shows "\<exists>new picked. out = acc @ new \<and> subseq picked rows
           \<and> list_all2 (\<lambda>x row. \<exists>m c. loc_mixxx dmn (m_index row) = Some m \<and> c \<in> set dcn
                                  \<and> x = (m_id m, m_location m, c_path c)) new picked"
  using assms
proof (induction rows arbitrary: acc inp)
  case Nil
  then show ?case by simp
next
  case (Cons row rows)
  obtain evs r where row: "close_match_row env dc dcn dmn row inp = (evs, r)"
    by (cases "close_match_row env dc dcn dmn row inp")
  show ?case
  proof (cases r)
    case (Inl e)
    with Cons.prems row show ?thesis by simp
  next
    case (Inr fr)
    obtain found rest' where fr: "fr = (found, rest')"
      by (cases fr)
    let ?acc = "acc @ (case found of None \<Rightarrow> [] | Some r \<Rightarrow> [r])"
    have "snd (close_match_loop env dc dcn dmn rows ?acc rest') = Inr (out, rest)"
      using Cons.prems by (simp add: row Inr fr split: prod.splits)
    from Cons.IH [OF this] obtain new picked where
      out: "out = ?acc @ new" and sub: "subseq picked rows"
      and rel: "list_all2 (\<lambda>x row. \<exists>m c. loc_mixxx dmn (m_index row) = Some m \<and> c \<in> set dcn
                  \<and> x = (m_id m, m_location m, c_path c)) new picked"
      by blast
    show ?thesis
    proof (cases found)
      case None
      have "out = acc @ new" using out None by simp
      moreover have "subseq picked (row # rows)" using sub by (rule list_emb_Cons)
      ultimately show ?thesis using rel by blast
    next
      case (Some x)
      have "snd (close_match_row env dc dcn dmn row inp) = Inr (Some x, rest')"
        by (simp add: row Inr fr Some)
      from close_match_row_Some [OF this]
      have x: "\<exists>m c. loc_mixxx dmn (m_index row) = Some m \<and> c \<in> set dcn
                \<and> x = (m_id m, m_location m, c_path c)" .
      have "out = acc @ (x # new)" using out Some by simp
      moreover have "subseq (row # picked) (row # rows)" using sub by simp
      moreover have "list_all2 (\<lambda>x row. \<exists>m c. loc_mixxx dmn (m_index row) = Some m \<and> c \<in> set dcn
                  \<and> x = (m_id m, m_location m, c_path c)) (x # new) (row # picked)"
        using rel x by simp
      ultimately show ?thesis by blast
    qed
  qed
qed

lemma close_match_rows:
  assumes "snd (close_match env dc dcn dmn inp) = Inr (cm, rest)"
  shows "\<exists>picked. subseq picked (sort_values (fillna_mixxx (MERGE_COLS env) dmn))
           \<and> list_all2 (\<lambda>x row. \<exists>m c. loc_mixxx (fillna_mixxx (MERGE_COLS env) dmn) (m_index row)
                                          = Some m
                                  \<and> c \<in> set (fillna_custom (MERGE_COLS env) dcn)
                                  \<and> x = (m_id m, m_location m, c_path c)) cm picked"
proof (cases "dmn = []")
  case True
  with assms have "cm = []"
    by (simp add: close_match_def)
  then show ?thesis by simp
next
  case False
  with assms have "snd (close_match_loop env dc (fillna_custom (MERGE_COLS env) dcn)
      (fillna_mixxx (MERGE_COLS env) dmn) (sort_values (fillna_mixxx (MERGE_COLS env) dmn))
      [] inp) = Inr (cm, rest)"
    by (simp add: close_match_def Let_def split: prod.splits)
  from close_match_loop_rows [OF this] show ?thesis
    by auto
qed

text \<open>Keys and paths survive the preparation of the frames.\<close>

lemma fillna_mixxx_keys:
  "map m_index (fillna_mixxx cols df) = map m_index df"
  "map m_id (fillna_mixxx cols df) = map m_id df"
  by (simp_all add: fillna_mixxx_def comp_def)

lemma fillna_mixxx_mem:
  "m \<in> set (fillna_mixxx cols df) \<Longrightarrow>
     \<exists>m' \<in> set df. m_index m = m_index m' \<and> m_id m = m_id m' \<and> m_location m = m_location m'"
  by (auto simp: fillna_mixxx_def)

lemma fillna_custom_mem:
  "c \<in> set (fillna_custom cols df) \<Longrightarrow> \<exists>c' \<in> set df. c_index c = c_index c' \<and> c_path c = c_path c'"
  by (auto simp: fillna_custom_def)

lemma prepare_mixxx_keys:
  "map m_index (prepare_mixxx env df) = map m_index df"
  "map m_id (prepare_mixxx env df) = map m_id df"
  by (simp_all add: prepare_mixxx_def comp_def)

lemma prepare_mixxx_mem:
  "m \<in> set (prepare_mixxx env df) \<Longrightarrow>
     \<exists>m' \<in> set df. m_index m = m_index m' \<and> m_id m = m_id m' \<and> m_location m = m_location m'"
  by (auto simp: prepare_mixxx_def)

lemma prepare_custom_mem:
  "c \<in> set (prepare_custom env songs) \<Longrightarrow>
     \<exists>s \<in> set songs. c_path c = file_url_to_path env (s_filename s)"
  by (auto simp: prepare_custom_def)

lemma pm_row_source:
  assumes "x \<in> set (map pm_row (df_custom_pm env df_mixxx0 songs))"
  shows "\<exists>m \<in> set df_mixxx0. \<exists>s \<in> set songs.
           x = (m_id m, m_location m, file_url_to_path env (s_filename s))"
proof -
  from assms obtain c m where cm: "(c, m) \<in> set (df_custom_pm env df_mixxx0 songs)"
    and x: "x = (m_id m, m_location m, c_path c)"
    by (auto simp: pm_row_def)
  from cm have c: "c \<in> set (prepare_custom env songs)" and m: "m \<in> set (prepare_mixxx env df_mixxx0)"
    by (simp_all add: df_custom_pm_def set_perfect_match)
  from prepare_custom_mem [OF c] prepare_mixxx_mem [OF m] x show ?thesis
    by auto
qed

lemma cm_row_source:
  assumes "snd (close_match env (prepare_custom env songs)
                      (custom_nm (prepare_custom env songs) (df_custom_pm env df_mixxx0 songs))
                      (df_mixxx_nm env df_mixxx0 songs) inp1) = Inr (cm, rest)"
    and "x \<in> set cm"
  shows "\<exists>m \<in> set df_mixxx0. \<exists>s \<in> set songs.
           x = (m_id m, m_location m, file_url_to_path env (s_filename s))"
proof -
  from close_match_rows [OF assms(1)] obtain picked :: "mixxx_row list" where
    rel: "list_all2 (\<lambda>x row. \<exists>m c. loc_mixxx (fillna_mixxx (MERGE_COLS env)
                  (df_mixxx_nm env df_mixxx0 songs)) (m_index row) = Some m
            \<and> c \<in> set (fillna_custom (MERGE_COLS env)
                  (custom_nm (prepare_custom env songs) (df_custom_pm env df_mixxx0 songs)))
            \<and> x = (m_id m, m_location m, c_path c)) cm picked"
    by blast
  from assms(2) obtain i where i: "i < length cm" and xi: "x = cm ! i"
    by (auto simp: in_set_conv_nth)
  from list_all2_nthD [OF rel i] xi obtain m c where
    m: "loc_mixxx (fillna_mixxx (MERGE_COLS env) (df_mixxx_nm env df_mixxx0 songs))
          (m_index (picked ! i)) = Some m"
    and c: "c \<in> set (fillna_custom (MERGE_COLS env)
                  (custom_nm (prepare_custom env songs) (df_custom_pm env df_mixxx0 songs)))"
    and x: "x = (m_id m, m_location m, c_path c)"
    by blast
  from loc_mixxx_mem [OF m] have "m \<in> set (fillna_mixxx (MERGE_COLS env) (df_mixxx_nm env df_mixxx0 songs))"
    by simp
  from fillna_mixxx_mem [OF this] obtain m1 where
    m1: "m1 \<in> set (df_mixxx_nm env df_mixxx0 songs)" "m_id m = m_id m1" "m_location m = m_location m1"
    by blast
  from m1(1) have "m1 \<in> set (prepare_mixxx env df_mixxx0)"
    using mixxx_nm_subset by (auto simp: df_mixxx_nm_def)
  from prepare_mixxx_mem [OF this] obtain m0 where
    m0: "m0 \<in> set df_mixxx0" "m_id m1 = m_id m0" "m_location m1 = m_location m0"
    by blast
  from fillna_custom_mem [OF c] obtain c1 where
    c1: "c1 \<in> set (custom_nm (prepare_custom env songs) (df_custom_pm env df_mixxx0 songs))"
      "c_path c = c_path c1"
    by blast
  from c1(1) have "c1 \<in> set (prepare_custom env songs)"
    using custom_nm_subset by auto
  from prepare_custom_mem [OF this] obtain s where
    s: "s \<in> set songs" "c_path c1 = file_url_to_path env (s_filename s)"
    by blast
  show ?thesis
    using x m1 m0 c1 s by auto
qed

lemma table_row_source:
  assumes "snd (fix_with_clementine_db env df_mixxx0 songs inp) = Inr (table, rest)"
    and "r \<in> set table"
  shows "(\<exists>m \<in> set df_mixxx0. \<exists>s \<in> set songs.
            library_idx r = m_id m \<and> location_idx r = m_location m
            \<and> path r = file_url_to_path env (s_filename s))
         \<and> filename r = path_name (path r) \<and> directory r = path_parent_as_posix (path r)"
proof -
  from fix_table [OF assms(1)] obtain inp1 cm where
    cm: "snd (close_match env (prepare_custom env songs)
                      (custom_nm (prepare_custom env songs) (df_custom_pm env df_mixxx0 songs))
                      (df_mixxx_nm env df_mixxx0 songs) inp1) = Inr (cm, rest)"
    and table: "table = final_output (map pm_row (df_custom_pm env df_mixxx0 songs) @ cm)"
    by blast
  from assms(2) table
    final_output_mem [of r "map pm_row (df_custom_pm env df_mixxx0 songs) @ cm"]
  have r: "(library_idx r, location_idx r, path r)
             \<in> set (map pm_row (df_custom_pm env df_mixxx0 songs)) \<union> set cm"
    and fd: "filename r = path_name (path r) \<and> directory r = path_parent_as_posix (path r)"
    by auto
  from r pm_row_source [of "(library_idx r, location_idx r, path r)" env df_mixxx0 songs]
    cm_row_source [OF cm, of "(library_idx r, location_idx r, path r)"]
  have "\<exists>m \<in> set df_mixxx0. \<exists>s \<in> set songs.
          (library_idx r, location_idx r, path r)
            = (m_id m, m_location m, file_url_to_path env (s_filename s))"
    by blast
  with fd show ?thesis by simp
qed

subsection \<open>File name and directory of a path\<close>










subsection \<open>One row for each truth record\<close>

text \<open>
  C1 as stated fails: the inner join pairs a Mixxx row with every song that agrees
  with it on the merge columns. One Mixxx row and two songs with its artist and title
  give a table of two rows for the one library id.
\<close>

theorem merge_duplicates_truth_record:
  "snd (fix_with_clementine_db sample_env [mixxx_one] [song_a, song_b] [''y''])
     = Inr ([final_a, final_b], [])
   \<and> library_idx final_a = m_id mixxx_one \<and> location_idx final_a = m_location mixxx_one
   \<and> library_idx final_b = m_id mixxx_one \<and> location_idx final_b = m_location mixxx_one
   \<and> path final_a \<noteq> path final_b
   \<and> \<not> distinct (map library_idx [final_a, final_b])"
  unfolding sample_env_def by (simp add: sample_run_duplicate sample_final_keys sample_keys)

lemma same_id_same_row:
  "distinct (map m_id dm) \<Longrightarrow> m \<in> set dm \<Longrightarrow> m' \<in> set dm \<Longrightarrow> m_id m = m_id m' \<Longrightarrow> m = m'"
  by (meson distinct_map inj_on_def)

lemma subseq_distinct: "subseq xs ys \<Longrightarrow> distinct ys \<Longrightarrow> distinct xs"
  using subseqs_distinctD [of xs ys] by (simp add: set_subseqs_eq)

lemma subseq_subset: "subseq xs ys \<Longrightarrow> set xs \<subseteq> set ys"
  by (auto elim: list_emb_set)

lemma list_all2_map_eq: "list_all2 (\<lambda>x y. f x = g y) xs ys \<Longrightarrow> map f xs = map g ys"
  by (induction rule: list_all2_induct) simp_all

lemma distinct_perfect_match_ids:
  assumes "distinct (map m_id dm)"
    and "\<forall>m \<in> set dm.
           length (filter (\<lambda>c. merge_key cols (c_cols c) = merge_key cols (m_cols m)) dc) \<le> 1"
  shows "distinct (map (m_id \<circ> snd) (perfect_match cols dc dm))"
  using assms(2)
proof (induction dc)
  case Nil
  show ?case by (simp add: perfect_match_def)
next
  case (Cons c dc)
  let ?hit = "filter (\<lambda>m. merge_key cols (m_cols m) = merge_key cols (c_cols c)) dm"
  have less: "\<forall>m \<in> set dm.
      length (filter (\<lambda>c. merge_key cols (c_cols c) = merge_key cols (m_cols m)) dc) \<le> 1"
  proof
    fix m assume "m \<in> set dm"
    with Cons.prems have "length (filter (\<lambda>c. merge_key cols (c_cols c)
        = merge_key cols (m_cols m)) (c # dc)) \<le> 1"
      by blast
    then show "length (filter (\<lambda>c. merge_key cols (c_cols c) = merge_key cols (m_cols m)) dc) \<le> 1"
      by (simp split: if_splits)
  qed
  have rest: "distinct (map (m_id \<circ> snd) (perfect_match cols dc dm))"
    by (rule Cons.IH [OF less])
  have first: "distinct (map m_id ?hit)"
    using assms(1) by (rule distinct_map_filter)
  have disjoint: "set (map m_id ?hit) \<inter> set (map (m_id \<circ> snd) (perfect_match cols dc dm)) = {}"
  proof (rule ccontr)
    assume "\<not> ?thesis"
    then obtain m c' m' where m: "m \<in> set dm"
      and mc: "merge_key cols (m_cols m) = merge_key cols (c_cols c)"
      and pm: "(c', m') \<in> set (perfect_match cols dc dm)" and same: "m_id m = m_id m'"
      by auto
    from pm have c': "c' \<in> set dc" and m': "m' \<in> set dm"
      and mc': "merge_key cols (m_cols m') = merge_key cols (c_cols c')"
      by (simp_all add: set_perfect_match)
    have "m = m'"
      using assms(1) m m' same by (rule same_id_same_row)
    then have "c' \<in> set (filter (\<lambda>c. merge_key cols (c_cols c) = merge_key cols (m_cols m)) dc)"
      using c' mc' by simp
    then have "0 < length (filter (\<lambda>c. merge_key cols (c_cols c) = merge_key cols (m_cols m)) dc)"
      by (meson length_pos_if_in_set)
    then have "1 < length (filter (\<lambda>c. merge_key cols (c_cols c)
        = merge_key cols (m_cols m)) (c # dc))"
      using mc by simp
    with Cons.prems m show False
      by fastforce
  qed
  show ?case
    using rest first disjoint by (simp add: perfect_match_Cons comp_def)
qed

lemma close_match_ids:
  assumes "snd (close_match env dc dcn dmn inp) = Inr (cm, rest)"
    and "distinct (map m_index dmn)"
  shows "subseq (map fst cm) (map m_id (sort_values (fillna_mixxx (MERGE_COLS env) dmn)))"
proof -
  let ?dmn = "fillna_mixxx (MERGE_COLS env) dmn"
  from close_match_rows [OF assms(1)] obtain picked :: "mixxx_row list" where
    sub: "subseq picked (sort_values ?dmn)"
    and rel: "list_all2 (\<lambda>x row. \<exists>m c. loc_mixxx ?dmn (m_index row) = Some m
            \<and> c \<in> set (fillna_custom (MERGE_COLS env) dcn)
            \<and> x = (m_id m, m_location m, c_path c)) cm picked"
    by blast
  have d: "distinct (map m_index ?dmn)"
    using assms(2) by (simp add: fillna_mixxx_keys)
  have "list_all2 (\<lambda>x row. fst x = m_id row) cm picked"
    using rel
  proof (rule list.rel_mono_strong)
    fix x row
    assume "row \<in> set picked"
      and "\<exists>m c. loc_mixxx ?dmn (m_index row) = Some m
            \<and> c \<in> set (fillna_custom (MERGE_COLS env) dcn)
            \<and> x = (m_id m, m_location m, c_path c)"
    then obtain m and c :: custom_row where m: "loc_mixxx ?dmn (m_index row) = Some m"
      and x: "x = (m_id m, m_location m, c_path c)"
      by blast
    have "row \<in> set (sort_values ?dmn)"
      using sub \<open>row \<in> set picked\<close> subseq_subset by blast
    then have "row \<in> set ?dmn"
      by (simp add: sort_values_def)
    from loc_mixxx_self [OF d this] m have "m = row"
      by simp
    with x show "fst x = m_id row"
      by simp
  qed
  then have "map fst cm = map m_id picked"
    by (rule list_all2_map_eq)
  then show ?thesis
    using subseq_map [OF sub, of m_id] by simp
qed

lemma distinct_sort_values_ids:
  "distinct (map m_id (sort_values df)) = distinct (map m_id df)"
  by (rule mset_eq_imp_distinct_iff) (simp add: sort_values_def)

lemma set_sort_values: "set (sort_values df) = set df"
  by (simp add: sort_values_def)

text \<open>
  C1, as amended. Let the Mixxx rows have pairwise different index labels and
  pairwise different library ids, and let no Mixxx row agree with more than one row
  of the other frame on all merge columns. Then in the table of a run that ends well
  no library id occurs twice, and every row has the library id and location of
  exactly one Mixxx row.
\<close>

theorem merge_soundness:
  assumes labels: "distinct (map m_index df_mixxx0)"
    and ids: "distinct (map m_id df_mixxx0)"
    and single: "\<forall>m \<in> set (prepare_mixxx env df_mixxx0).
                   length (filter (\<lambda>c. merge_key (MERGE_COLS env) (c_cols c)
                                        = merge_key (MERGE_COLS env) (m_cols m))
                            (prepare_custom env songs)) \<le> 1"
    and run: "snd (fix_with_clementine_db env df_mixxx0 songs inp) = Inr (table, rest)"
  shows "distinct (map library_idx table)
         \<and> (\<forall>r \<in> set table.
              \<exists>!m. m \<in> set df_mixxx0 \<and> library_idx r = m_id m \<and> location_idx r = m_location m)"
proof
  let ?dm = "prepare_mixxx env df_mixxx0"
  let ?pm = "df_custom_pm env df_mixxx0 songs"
  let ?nm = "df_mixxx_nm env df_mixxx0 songs"
  from fix_table [OF run] obtain inp1 cm where
    cm: "snd (close_match env (prepare_custom env songs)
                      (custom_nm (prepare_custom env songs) ?pm) ?nm inp1) = Inr (cm, rest)"
    and table: "table = final_output (map pm_row ?pm @ cm)"
    by blast
  have dm_ids: "distinct (map m_id ?dm)" and dm_labels: "distinct (map m_index ?dm)"
    using ids labels by (simp_all add: prepare_mixxx_keys)
  have nm_labels: "distinct (map m_index ?nm)"
    unfolding df_mixxx_nm_def mixxx_nm_def using dm_labels by (rule distinct_map_filter)
  have nm_ids: "distinct (map m_id ?nm)"
    unfolding df_mixxx_nm_def mixxx_nm_def using dm_ids by (rule distinct_map_filter)
  have pm_ids: "distinct (map (m_id \<circ> snd) ?pm)"
    unfolding df_custom_pm_def using dm_ids single by (rule distinct_perfect_match_ids)
  have sub: "subseq (map fst cm) (map m_id (sort_values (fillna_mixxx (MERGE_COLS env) ?nm)))"
    using cm nm_labels by (rule close_match_ids)
  have "distinct (map m_id (sort_values (fillna_mixxx (MERGE_COLS env) ?nm)))"
    using nm_ids by (simp add: distinct_sort_values_ids fillna_mixxx_keys)
  with sub have cm_ids: "distinct (map fst cm)"
    by (rule subseq_distinct)
  have cm_from: "set (map fst cm) \<subseteq> m_id ` set ?nm"
  proof -
    have "set (map fst cm) \<subseteq> set (map m_id (sort_values (fillna_mixxx (MERGE_COLS env) ?nm)))"
      using sub by (rule subseq_subset)
    also have "\<dots> = set (map m_id (fillna_mixxx (MERGE_COLS env) ?nm))"
      by (simp add: set_sort_values)
    also have "\<dots> = m_id ` set ?nm"
      by (simp add: fillna_mixxx_keys)
    finally show ?thesis .
  qed
  have disjoint: "set (map (m_id \<circ> snd) ?pm) \<inter> set (map fst cm) = {}"
  proof (rule ccontr)
    assume "\<not> ?thesis"
    with cm_from obtain c m m' where pm: "(c, m) \<in> set ?pm" and m': "m' \<in> set ?nm"
      and same: "m_id m = m_id m'"
      by fastforce
    from pm have m: "m \<in> set ?dm"
      by (simp add: df_custom_pm_def set_perfect_match)
    from m' have m'dm: "m' \<in> set ?dm"
      and notin: "m_index m' \<notin> set (map (m_index \<circ> snd) ?pm)"
      by (simp_all add: df_mixxx_nm_def mixxx_nm_def)
    have "m = m'"
      using dm_ids m m'dm same by (rule same_id_same_row)
    with pm notin show False
      by force
  qed
  have "map library_idx table = map (m_id \<circ> snd) ?pm @ map fst cm"
    by (simp add: table map_library_idx_final_output pm_row_def comp_def)
  then show "distinct (map library_idx table)"
    using pm_ids cm_ids disjoint by simp
  show "\<forall>r \<in> set table.
          \<exists>!m. m \<in> set df_mixxx0 \<and> library_idx r = m_id m \<and> location_idx r = m_location m"
  proof
    fix r assume "r \<in> set table"
    from table_row_source [OF run this] obtain m where
      m: "m \<in> set df_mixxx0" "library_idx r = m_id m" "location_idx r = m_location m"
      by blast
    show "\<exists>!m. m \<in> set df_mixxx0 \<and> library_idx r = m_id m \<and> location_idx r = m_location m"
    proof (rule ex1I [of _ m])
      show "m \<in> set df_mixxx0 \<and> library_idx r = m_id m \<and> location_idx r = m_location m"
        using m by simp
    next
      fix m'
      assume "m' \<in> set df_mixxx0 \<and> library_idx r = m_id m' \<and> location_idx r = m_location m'"
      then show "m' = m"
        using ids m same_id_same_row [of df_mixxx0 m' m] by simp
    qed
  qed
qed

theorem merge_soundness_witness:
  "distinct (map m_index [mixxx_one, mixxx_two])
   \<and> distinct (map m_id [mixxx_one, mixxx_two])
   \<and> length (filter (\<lambda>c. merge_key (MERGE_COLS sample_env) (c_cols c)
                           = merge_key (MERGE_COLS sample_env) (m_cols mixxx_one))
               (prepare_custom sample_env [song_a, song_c])) \<le> 1
   \<and> length (filter (\<lambda>c. merge_key (MERGE_COLS sample_env) (c_cols c)
                           = merge_key (MERGE_COLS sample_env) (m_cols mixxx_two))
               (prepare_custom sample_env [song_a, song_c])) \<le> 1
   \<and> snd (fix_with_clementine_db sample_env [mixxx_one, mixxx_two] [song_a, song_c]
          [''y'', ''0'']) = Inr ([final_a, final_c2], [])
   \<and> distinct (map library_idx [final_a, final_c2])
   \<and> (\<exists>!m. m \<in> set [mixxx_one, mixxx_two] \<and> library_idx final_c2 = m_id m
              \<and> location_idx final_c2 = m_location m)"
proof -
  have labels: "distinct (map m_index [mixxx_one, mixxx_two])"
    and ids: "distinct (map m_id [mixxx_one, mixxx_two])"
    by (simp_all add: sample_keys)
  have one: "length (filter (\<lambda>c. merge_key (MERGE_COLS sample_env) (c_cols c)
                           = merge_key (MERGE_COLS sample_env) (m_cols mixxx_one))
               (prepare_custom sample_env [song_a, song_c])) \<le> 1"
    and two: "length (filter (\<lambda>c. merge_key (MERGE_COLS sample_env) (c_cols c)
                           = merge_key (MERGE_COLS sample_env) (m_cols mixxx_two))
               (prepare_custom sample_env [song_a, song_c])) \<le> 1"
    unfolding sample_env_def
    by (simp_all add: sample_env_sel sample_prepare_custom sample_merge_key)
  have prep: "prepare_mixxx sample_env [mixxx_one, mixxx_two] = [mixxx_one, mixxx_two]"
    by (simp add: sample_env_def sample_prepare_mixxx)
  have single: "\<forall>m \<in> set (prepare_mixxx sample_env [mixxx_one, mixxx_two]).
      length (filter (\<lambda>c. merge_key (MERGE_COLS sample_env) (c_cols c)
                           = merge_key (MERGE_COLS sample_env) (m_cols m))
               (prepare_custom sample_env [song_a, song_c])) \<le> 1"
    unfolding prep using one two by simp
  have mem: "final_c2 \<in> set [final_a, final_c2]"
    by simp
  note inst = merge_soundness [OF labels ids single sample_env_run_mixed]
  from inst have dist: "distinct (map library_idx [final_a, final_c2])"
    by (rule conjunct1)
  from inst have "\<forall>r \<in> set [final_a, final_c2].
      \<exists>!m. m \<in> set [mixxx_one, mixxx_two] \<and> library_idx r = m_id m
             \<and> location_idx r = m_location m"
    by (rule conjunct2)
  from bspec [OF this mem]
  have uniq: "\<exists>!m. m \<in> set [mixxx_one, mixxx_two] \<and> library_idx final_c2 = m_id m
             \<and> location_idx final_c2 = m_location m" .
  show ?thesis
    using labels ids one two sample_env_run_mixed dist uniq by (intro conjI)
qed

subsection \<open>A confirmed record stays in the pool\<close>

text \<open>
  C4. The loop hands the same residual of the other frame to the proposer for every
  row. With two Mixxx rows that match no song exactly and one song, whenever the
  proposer proposes that song to both rows, the answers \<^verbatim>\<open>y\<close>, \<^verbatim>\<open>0\<close>, \<^verbatim>\<open>0\<close>
  confirm it for both: the trace shows the same candidate twice and the table has
  two rows, one for each Mixxx row, with the path of that song.
\<close>

theorem fuzzy_reuses_other_record:
  assumes "g mixxx_one [custom_c] [''artist'', ''title''] 3 5 = [2]"
    and "g mixxx_two [custom_c] [''artist'', ''title''] 3 5 = [2]"
  shows "fix_with_clementine_db (sample_env_with g) [mixxx_one, mixxx_two] [song_c]
           [''y'', ''0'', ''0'']
     = ([Input_refreshed, Print_not_found 2,
         Print_finding 0 [Some ''dp'', Some ''omt''],
         Print_candidate 0 [Some ''dp'', Some ''om''], Input_choose,
         Print_finding 1 [Some ''dp'', Some ''omx''],
         Print_candidate 0 [Some ''dp'', Some ''om''], Input_choose,
         Print_merge_table [final_c1, final_c2]],
        Inr ([final_c1, final_c2], []))
   \<and> library_idx final_c1 = m_id mixxx_one \<and> library_idx final_c2 = m_id mixxx_two
   \<and> m_id mixxx_one \<noteq> m_id mixxx_two
   \<and> path final_c1 = c_path custom_c \<and> path final_c2 = c_path custom_c
   \<and> prepare_custom (sample_env_with g) [song_c] = [custom_c]"
  using sample_run_both [where g = g, OF assms]
  by (simp add: sample_final_keys sample_keys sample_prepare_custom)

theorem fuzzy_reuses_other_record_witness:
  "closest_matches_indices fields_distance mixxx_one [custom_c] [''artist'', ''title''] 3 5 = [2]
   \<and> closest_matches_indices fields_distance mixxx_two [custom_c] [''artist'', ''title''] 3 5
       = [2]
   \<and> snd (fix_with_clementine_db sample_env [mixxx_one, mixxx_two] [song_c]
            [''y'', ''0'', ''0'']) = Inr ([final_c1, final_c2], [])
   \<and> path final_c1 = path final_c2"
proof -
  note inst = fuzzy_reuses_other_record [where g = "closest_matches_indices fields_distance",
      OF sample_proposals(1) sample_proposals(2)]
  from inst have "fix_with_clementine_db sample_env [mixxx_one, mixxx_two] [song_c]
           [''y'', ''0'', ''0'']
     = ([Input_refreshed, Print_not_found 2,
         Print_finding 0 [Some ''dp'', Some ''omt''],
         Print_candidate 0 [Some ''dp'', Some ''om''], Input_choose,
         Print_finding 1 [Some ''dp'', Some ''omx''],
         Print_candidate 0 [Some ''dp'', Some ''om''], Input_choose,
         Print_merge_table [final_c1, final_c2]],
        Inr ([final_c1, final_c2], []))"
    unfolding sample_env_def by (rule conjunct1)
  then have run: "snd (fix_with_clementine_db sample_env [mixxx_one, mixxx_two] [song_c]
            [''y'', ''0'', ''0'']) = Inr ([final_c1, final_c2], [])"
    by simp
  from inst have "path final_c1 = c_path custom_c" "path final_c2 = c_path custom_c"
    by blast+
  then have same: "path final_c1 = path final_c2"
    by simp
  show ?thesis
    using sample_proposals(1) sample_proposals(2) run same by (intro conjI)
qed

subsection \<open>An empty residual\<close>

text \<open>
  C9 as stated fails: with an empty residual the run writes the perfect matches. One
  Mixxx row and the one song with its artist and title leave no residual, and the
  table written has one row.
\<close>

theorem empty_residual_writes_exact_matches:
  "df_mixxx_nm sample_env [mixxx_one] [song_a] = []
   \<and> fix_with_clementine_db sample_env [mixxx_one] [song_a] [''y'']
       = ([Input_refreshed, Print_merge_table [final_a]], Inr ([final_a], []))
   \<and> [final_a] \<noteq> []"
  unfolding sample_env_def by (simp add: sample_nm sample_run_exact)

lemma perfect_match_not_empty:
  assumes "df_mixxx0 \<noteq> []" and "df_mixxx_nm env df_mixxx0 songs = []"
  shows "df_custom_pm env df_mixxx0 songs \<noteq> []"
proof
  assume empty: "df_custom_pm env df_mixxx0 songs = []"
  have "df_mixxx_nm env df_mixxx0 songs = prepare_mixxx env df_mixxx0"
    by (simp add: df_mixxx_nm_def mixxx_nm_def empty)
  with assms show False
    by (simp add: prepare_mixxx_def)
qed

text \<open>
  C9, as amended. Without a Mixxx row the run ends at once with \<^verbatim>\<open>exit()\<close>, exit
  status 0, and nothing is written. With Mixxx rows, all of them matched perfectly,
  and the refresh confirmed, the close match is skipped: nothing more is printed
  before the table or read, and the run ends well; the table written is the one of
  the perfect matches, which has at least one row.
\<close>

theorem empty_residual_run:
  "(df_mixxx0 = [] \<longrightarrow>
      fix_with_clementine_db env df_mixxx0 songs inp
        = ([Print_no_missing_tracks], Inl (SystemExit None)))
   \<and> (df_mixxx0 \<noteq> [] \<and> df_mixxx_nm env df_mixxx0 songs = [] \<longrightarrow>
        fix_with_clementine_db env df_mixxx0 songs (''y'' # rest)
          = ([Input_refreshed,
              Print_merge_table (final_output (map pm_row (df_custom_pm env df_mixxx0 songs)))],
             Inr (final_output (map pm_row (df_custom_pm env df_mixxx0 songs)), rest))
        \<and> length (final_output (map pm_row (df_custom_pm env df_mixxx0 songs)))
            = length (df_custom_pm env df_mixxx0 songs)
        \<and> df_custom_pm env df_mixxx0 songs \<noteq> [])"
proof (intro conjI impI)
  assume "df_mixxx0 = []"
  then show "fix_with_clementine_db env df_mixxx0 songs inp
        = ([Print_no_missing_tracks], Inl (SystemExit None))"
    by (simp add: fix_with_clementine_db_def)
next
  assume a: "df_mixxx0 \<noteq> [] \<and> df_mixxx_nm env df_mixxx0 songs = []"
  then have ne: "df_mixxx0 \<noteq> []" and nm: "df_mixxx_nm env df_mixxx0 songs = []"
    by simp_all
  have "close_match env (prepare_custom env songs)
           (custom_nm (prepare_custom env songs) (df_custom_pm env df_mixxx0 songs))
           (df_mixxx_nm env df_mixxx0 songs) rest = ([], Inr ([], rest))"
    by (simp add: nm close_match_nothing)
  from fix_run [OF ne this]
  show "fix_with_clementine_db env df_mixxx0 songs (''y'' # rest)
          = ([Input_refreshed,
              Print_merge_table (final_output (map pm_row (df_custom_pm env df_mixxx0 songs)))],
             Inr (final_output (map pm_row (df_custom_pm env df_mixxx0 songs)), rest))"
    by simp
  show "length (final_output (map pm_row (df_custom_pm env df_mixxx0 songs)))
            = length (df_custom_pm env df_mixxx0 songs)"
    by (simp add: final_output_def)
  show "df_custom_pm env df_mixxx0 songs \<noteq> []"
    using ne nm by (rule perfect_match_not_empty)
qed

theorem empty_residual_run_witness:
  "fix_with_clementine_db sample_env [] [song_a] [''y'']
     = ([Print_no_missing_tracks], Inl (SystemExit None))
   \<and> [mixxx_one] \<noteq> []
   \<and> df_mixxx_nm sample_env [mixxx_one] [song_a] = []
   \<and> fix_with_clementine_db sample_env [mixxx_one] [song_a] [''y'', ''0'']
       = ([Input_refreshed, Print_merge_table [final_a]], Inr ([final_a], [''0'']))"
proof -
  have ne: "[mixxx_one] \<noteq> []"
    by simp
  have nm: "df_mixxx_nm sample_env [mixxx_one] [song_a] = []"
    by (simp add: sample_env_def sample_nm)
  have table: "final_output (map pm_row (df_custom_pm sample_env [mixxx_one] [song_a]))
                 = [final_a]"
    by (simp add: sample_env_def sample_pm sample_pm_rows sample_final_output)
  show ?thesis
    using ne nm
      empty_residual_run [of "[]" sample_env "[song_a]" "[''y'']" "[]"]
      empty_residual_run [of "[mixxx_one]" sample_env "[song_a]" "[]" "[''0'']"]
    by (simp add: table)
qed

subsection \<open>\<^verbatim>\<open>confirm_config\<close>\<close>

lemma params_of_empty_iff: "params_of members = [] \<longleftrightarrow> (\<forall>i \<in> set members. \<not> eligible i)"
proof -
  have "params_of members = [] \<longleftrightarrow> set (params_of members) = {}"
    by simp
  also have "\<dots> \<longleftrightarrow> (\<forall>i \<in> set members. \<not> eligible i)"
    by (auto simp: params_of_def)
  finally show ?thesis .
qed

text \<open>
  C10, as amended. A member is a parameter when its name does not start with two
  underscores and the string form of its value has no dot. Without a parameter
  \<^verbatim>\<open>confirm_config\<close> returns with nothing printed and nothing read. With one it
  prompts, and it exits with status 1 exactly when the answer is not \<^verbatim>\<open>y\<close>,
  returning otherwise. It prompts, and exits, only when there is a parameter, and
  status 1 is its only exit.
\<close>

theorem confirm_config_prompt_and_exit:
  "((\<forall>i \<in> set members. startswith (mem_name i) ''__'' \<or> CHR ''.'' \<in> set (mem_str i))
      \<longrightarrow> confirm_config module_name members inp = ([], Inr inp))
   \<and> ((\<exists>i \<in> set members. \<not> startswith (mem_name i) ''__'' \<and> CHR ''.'' \<notin> set (mem_str i))
      \<longrightarrow> Input_ok \<in> set (fst (confirm_config module_name members (answer # rest)))
          \<and> (snd (confirm_config module_name members (answer # rest)) = Inl (SystemExit (Some 1)))
              = (answer \<noteq> ''y'')
          \<and> (snd (confirm_config module_name members (answer # rest)) = Inr rest)
              = (answer = ''y''))
   \<and> (Input_ok \<in> set (fst (confirm_config module_name members inp))
      \<longrightarrow> (\<exists>i \<in> set members. \<not> startswith (mem_name i) ''__'' \<and> CHR ''.'' \<notin> set (mem_str i)))
   \<and> (snd (confirm_config module_name members inp) = Inl (SystemExit code)
      \<longrightarrow> code = Some 1
          \<and> (\<exists>i \<in> set members. \<not> startswith (mem_name i) ''__'' \<and> CHR ''.'' \<notin> set (mem_str i)))"
proof -
  have none: "params_of members = [] \<longleftrightarrow>
      (\<forall>i \<in> set members. startswith (mem_name i) ''__'' \<or> CHR ''.'' \<in> set (mem_str i))"
    by (auto simp: params_of_empty_iff eligible_def)
  show ?thesis
  proof (cases "params_of members = []")
    case True
    then show ?thesis
      using none by (auto simp: confirm_config_def)
  next
    case False
    then have some: "\<exists>i \<in> set members. \<not> startswith (mem_name i) ''__'' \<and> CHR ''.'' \<notin> set (mem_str i)"
      using none by blast
    have no: "\<not> (\<forall>i \<in> set members. startswith (mem_name i) ''__'' \<or> CHR ''.'' \<in> set (mem_str i))"
      using some by blast
    from False have 1: "Input_ok \<in> set (fst (confirm_config module_name members (answer # rest)))"
      by (simp add: confirm_config_def Let_def)
    from False have 2: "(snd (confirm_config module_name members (answer # rest)) = Inl (SystemExit (Some 1)))
              = (answer \<noteq> ''y'')"
      by (simp add: confirm_config_def Let_def)
    from False have 3: "(snd (confirm_config module_name members (answer # rest)) = Inr rest)
              = (answer = ''y'')"
      by (simp add: confirm_config_def Let_def)
    from False have 4: "snd (confirm_config module_name members inp) = Inl (SystemExit code)
      \<longrightarrow> code = Some 1"
      by (auto simp: confirm_config_def Let_def split: list.splits if_splits)
    show ?thesis
      using some no 1 2 3 4 by blast
  qed
qed

text \<open>
  C10 as stated fails: the dot test does not exclude every float. The string form of
  the float \<^verbatim>\<open>1e-05\<close> has no dot, so a module whose only setting is
  \<^verbatim>\<open>EPSILON = 1e-05\<close> has a parameter, prompts and exits on the answer \<^verbatim>\<open>n\<close>.
\<close>

theorem float_setting_eligible:
  "mem_type \<lparr>mem_name = ''EPSILON'', mem_type = Py_float, mem_str = ''1e-05''\<rparr> = Py_float
   \<and> eligible \<lparr>mem_name = ''EPSILON'', mem_type = Py_float, mem_str = ''1e-05''\<rparr>
   \<and> confirm_config ''config''
       [\<lparr>mem_name = ''EPSILON'', mem_type = Py_float, mem_str = ''1e-05''\<rparr>,
        \<lparr>mem_name = ''__name__'', mem_type = Py_str, mem_str = ''config''\<rparr>] [''n'']
     = ([Print_defined ''config'', Print_param ''EPSILON'' ''1e-05'', Input_ok],
        Inl (SystemExit (Some 1)))"
  by (simp add: confirm_config_def params_of_def eligible_def startswith_def)

theorem confirm_config_prompt_and_exit_witness:
  "\<not> startswith (mem_name \<lparr>mem_name = ''N'', mem_type = Py_int, mem_str = ''5''\<rparr>) ''__''
   \<and> CHR ''.'' \<notin> set (mem_str \<lparr>mem_name = ''N'', mem_type = Py_int, mem_str = ''5''\<rparr>)
   \<and> Input_ok \<in> set (fst (confirm_config ''config''
        [\<lparr>mem_name = ''N'', mem_type = Py_int, mem_str = ''5''\<rparr>] [''n'']))
   \<and> snd (confirm_config ''config''
        [\<lparr>mem_name = ''N'', mem_type = Py_int, mem_str = ''5''\<rparr>] [''n''])
       = Inl (SystemExit (Some 1))
   \<and> startswith (mem_name \<lparr>mem_name = ''__name__'', mem_type = Py_str, mem_str = ''config''\<rparr>) ''__''
   \<and> CHR ''.'' \<in> set (mem_str \<lparr>mem_name = ''TH'', mem_type = Py_float, mem_str = ''0.25''\<rparr>)
   \<and> confirm_config ''config''
        [\<lparr>mem_name = ''TH'', mem_type = Py_float, mem_str = ''0.25''\<rparr>,
         \<lparr>mem_name = ''__name__'', mem_type = Py_str, mem_str = ''config''\<rparr>] [''n'']
       = ([], Inr [''n''])"
proof -
  have a: "\<not> startswith (mem_name \<lparr>mem_name = ''N'', mem_type = Py_int, mem_str = ''5''\<rparr>) ''__''"
    "CHR ''.'' \<notin> set (mem_str \<lparr>mem_name = ''N'', mem_type = Py_int, mem_str = ''5''\<rparr>)"
    "startswith (mem_name \<lparr>mem_name = ''__name__'', mem_type = Py_str, mem_str = ''config''\<rparr>) ''__''"
    "CHR ''.'' \<in> set (mem_str \<lparr>mem_name = ''TH'', mem_type = Py_float, mem_str = ''0.25''\<rparr>)"
    by (simp_all add: startswith_def)
  have n: "''n'' \<noteq> ''y''" by simp
  show ?thesis
    using a n
      confirm_config_prompt_and_exit [of "[\<lparr>mem_name = ''N'', mem_type = Py_int, mem_str = ''5''\<rparr>]"
         "''config''" "[''n'']" "''n''" "[]" None]
      confirm_config_prompt_and_exit [of "[\<lparr>mem_name = ''TH'', mem_type = Py_float, mem_str = ''0.25''\<rparr>,
         \<lparr>mem_name = ''__name__'', mem_type = Py_str, mem_str = ''config''\<rparr>]"
         "''config''" "[''n'']" "''n''" "[]" None]
    by simp
qed

end
